theory Spec2Isabelle
  imports Main "HOL-Library.AList"
begin

section \<open>JavaScript values\<close>

text \<open>
  The service handles JSON-like data only: response bodies, query parameters, update
  payloads, thrown errors. A value is one of JavaScript's primitives, an array or a
  plain object. Numbers are restricted to integers (versions, identifiers, page numbers,
  HTTP status codes); an object is the list of its own properties in insertion order,
  read with \<open>map_of\<close> and written with \<open>AList.update\<close> (an existing key keeps
  its place and takes the new value, a new key goes last), as an object literal with a
  spread does.
\<close>

datatype jsval =
    JUndefined
  | JNull
  | JBool bool
  | JNum int
  | JStr string
  | JArr "jsval list"
  | JObj "(string \<times> jsval) list"

type_synonym jsobj = "(string \<times> jsval) list"

text \<open>
  A computation that can throw returns a sum: \<open>Inl e\<close> is the thrown value \<open>e\<close>
  (JavaScript can throw any value), \<open>Inr v\<close> is the normal result.
\<close>

type_synonym 'a thrown_or = "jsval + 'a"

text \<open>\<open>!!v\<close>: the values that are falsy are undefined, null, false, 0 and the empty string.\<close>

fun truthy :: "jsval \<Rightarrow> bool" where
  "truthy JUndefined = False"
| "truthy JNull = False"
| "truthy (JBool b) = b"
| "truthy (JNum n) = (n \<noteq> 0)"
| "truthy (JStr s) = (s \<noteq> [])"
| "truthy (JArr xs) = True"
| "truthy (JObj kvs) = True"

text \<open>\<open>Array.isArray(v)\<close>\<close>

fun isArray :: "jsval \<Rightarrow> bool" where
  "isArray (JArr xs) = True"
| "isArray v = False"

text \<open>\<open>v === null || v === undefined\<close>\<close>

fun nullish :: "jsval \<Rightarrow> bool" where
  "nullish JUndefined = True"
| "nullish JNull = True"
| "nullish v = False"

text \<open>\<open>new Error(msg)\<close> and the \<open>TypeError\<close> the runtime throws.\<close>

definition newError :: "string \<Rightarrow> jsval" where
  "newError msg = JObj [(''message'', JStr msg)]"

definition typeError :: "string \<Rightarrow> jsval" where
  "typeError msg = JObj [(''name'', JStr ''TypeError''), (''message'', JStr msg)]"

text \<open>
  \<open>v.k\<close> for a property name \<open>k\<close>: reading a property of undefined or null throws a
  TypeError; an object gives its property or undefined; arrays and strings have
  \<open>length\<close>; every other read gives undefined.
\<close>

fun getProp :: "jsval \<Rightarrow> string \<Rightarrow> jsval thrown_or" where
  "getProp JUndefined k = Inl (typeError (''Cannot read properties of undefined (reading '' @ k @ '')''))"
| "getProp JNull k = Inl (typeError (''Cannot read properties of null (reading '' @ k @ '')''))"
| "getProp (JObj kvs) k = Inr (case map_of kvs k of Some v \<Rightarrow> v | None \<Rightarrow> JUndefined)"
| "getProp (JArr xs) k = Inr (if k = ''length'' then JNum (int (length xs)) else JUndefined)"
| "getProp (JStr s) k = Inr (if k = ''length'' then JNum (int (length s)) else JUndefined)"
| "getProp (JBool b) k = Inr JUndefined"
| "getProp (JNum n) k = Inr JUndefined"

section \<open>The pagination engine (pagination.js)\<close>

text \<open>
  \<open>fetchAllPaginated(fetchFunction, initialParams, maxPages)\<close>. The page-fetching
  function is given the parameter object \<open>{...initialParams, page: currentPage}\<close> and
  either returns a response or throws. The loop asks for every page number at most once,
  so within one traversal the function is determined by what it answers to each parameter
  object. The engine's run is its result (the array returned, or the value with which the
  returned promise rejects) together with the parameter objects of the calls it made, in
  order.
\<close>

definition page_params :: "jsobj \<Rightarrow> int \<Rightarrow> jsval" where
  "page_params initialParams currentPage =
     JObj (AList.update ''page'' (JNum currentPage) initialParams)"

text \<open>
  The classification of one response: the value of \<open>items\<close> and of \<open>hasMore\<close> after the
  \<open>if (response.data) ... else ...\<close> block, or the TypeError of \<open>response.data\<close> on a
  response that is undefined or null.
\<close>

definition read_page :: "jsval \<Rightarrow> (jsval \<times> bool) thrown_or" where
  "read_page response =
     (case getProp response ''data'' of
        Inl e \<Rightarrow> Inl e
      | Inr data \<Rightarrow>
          if truthy data then
            (if isArray data then Inr (data, False)
             else
               (case getProp data ''results'' of
                  Inl e \<Rightarrow> Inl e
                | Inr results \<Rightarrow>
                    if truthy results \<and> isArray results then
                      (case getProp data ''next'' of
                         Inl e \<Rightarrow> Inl e
                       | Inr nextUrl \<Rightarrow> Inr (results, truthy nextUrl))
                    else Inr (if truthy results then results else JArr [], False)))
          else Inr (if isArray response then response else JArr [], False))"

text \<open>\<open>allItems.concat(items)\<close>: an array argument is spread, any other value is appended.\<close>

fun js_concat :: "jsval list \<Rightarrow> jsval \<Rightarrow> jsval list" where
  "js_concat allItems (JArr items) = allItems @ items"
| "js_concat allItems v = allItems @ [v]"

text \<open>\<open>items.length === 0\<close>\<close>

definition length_is_zero :: "jsval \<Rightarrow> bool thrown_or" where
  "length_is_zero items =
     (case getProp items ''length'' of Inl e \<Rightarrow> Inl e | Inr n \<Rightarrow> Inr (n = JNum 0))"

text \<open>
  The \<open>catch\<close> block: it reads \<open>error.message\<close> for the warning and leaves the loop, so
  the function returns what it has; reading the message of a thrown undefined or null
  throws inside the handler, and that error leaves the function.
\<close>

definition pagination_catch :: "jsval \<Rightarrow> jsval list \<Rightarrow> jsval list thrown_or" where
  "pagination_catch error allItems =
     (case getProp error ''message'' of Inl e \<Rightarrow> Inl e | Inr msg \<Rightarrow> Inr allItems)"

text \<open>
  The \<open>while (hasMore && currentPage <= maxPages)\<close> loop, with the loop variables as
  arguments. The warning after the loop has no effect on the result.
\<close>

function fetch_loop ::
  "(jsval \<Rightarrow> jsval thrown_or) \<Rightarrow> jsobj \<Rightarrow> int \<Rightarrow> jsval list \<Rightarrow> int \<Rightarrow> bool \<Rightarrow> jsval list
     \<Rightarrow> jsval list thrown_or \<times> jsval list" where
  "fetch_loop fetchFunction initialParams maxPages allItems currentPage hasMore calls =
     (if hasMore \<and> currentPage \<le> maxPages then
        (case fetchFunction (page_params initialParams currentPage) of
           Inl error \<Rightarrow>
             (pagination_catch error allItems, calls @ [page_params initialParams currentPage])
         | Inr response \<Rightarrow>
             (case read_page response of
                Inl error \<Rightarrow>
                  (pagination_catch error allItems, calls @ [page_params initialParams currentPage])
              | Inr (items, hasMore') \<Rightarrow>
                  if \<not> hasMore' then
                    (Inr (js_concat allItems items), calls @ [page_params initialParams currentPage])
                  else
                    (case length_is_zero items of
                       Inl error \<Rightarrow>
                         (pagination_catch error (js_concat allItems items),
                          calls @ [page_params initialParams currentPage])
                     | Inr noItems \<Rightarrow>
                         if noItems then
                           (Inr (js_concat allItems items),
                            calls @ [page_params initialParams currentPage])
                         else
                           fetch_loop fetchFunction initialParams maxPages
                             (js_concat allItems items) (currentPage + 1) hasMore'
                             (calls @ [page_params initialParams currentPage]))))
      else (Inr allItems, calls))"
  by pat_completeness auto
termination
  by (relation "measure (\<lambda>(f, init, maxPages, allItems, currentPage, hasMore, calls).
        nat (maxPages + 1 - currentPage))") auto

definition fetchAllPaginated ::
  "(jsval \<Rightarrow> jsval thrown_or) \<Rightarrow> jsobj \<Rightarrow> int \<Rightarrow> jsval list thrown_or \<times> jsval list" where
  "fetchAllPaginated fetchFunction initialParams maxPages =
     fetch_loop fetchFunction initialParams maxPages [] 1 True []"

declare fetch_loop.simps [simp del]

subsection \<open>Page sequences\<close>

text \<open>
  An envelope response is one whose \<open>data\<close> is an object carrying a \<open>results\<close> array
  and a \<open>next\<close> indicator; \<open>envelope_of\<close> gives the two.
\<close>

definition envelope_of :: "jsval \<Rightarrow> (jsval list \<times> jsval) option" where
  "envelope_of response =
     (case getProp response ''data'' of
        Inr (JObj d) \<Rightarrow>
          (case map_of d ''results'' of
             Some (JArr items) \<Rightarrow>
               (case map_of d ''next'' of Some nextUrl \<Rightarrow> Some (items, nextUrl) | None \<Rightarrow> None)
           | _ \<Rightarrow> None)
      | _ \<Rightarrow> None)"

text \<open>
  \<open>serves_pages f init n ps\<close>: called for the pages \<open>n\<close>, \<open>n + 1\<close>, ... the function
  \<open>f\<close> returns envelope responses whose results and next indicators are those of the
  list \<open>ps\<close>, in order.
\<close>

fun serves_pages ::
  "(jsval \<Rightarrow> jsval thrown_or) \<Rightarrow> jsobj \<Rightarrow> int \<Rightarrow> (jsval list \<times> jsval) list \<Rightarrow> bool" where
  "serves_pages f init n [] = True"
| "serves_pages f init n (p # ps) =
     ((case f (page_params init n) of Inr r \<Rightarrow> envelope_of r = Some p | Inl e \<Rightarrow> False)
      \<and> serves_pages f init (n + 1) ps)"

definition nonempty_page :: "jsval list \<times> jsval \<Rightarrow> bool" where
  "nonempty_page p = (fst p \<noteq> [])"

definition next_truthy :: "jsval list \<times> jsval \<Rightarrow> bool" where
  "next_truthy p = truthy (snd p)"

definition next_nonnull :: "jsval list \<times> jsval \<Rightarrow> bool" where
  "next_nonnull p = (snd p \<noteq> JNull)"

text \<open>
  The mock page-fetching function of test/paginationTest.js, for any list of responses:
  with \<open>page = params.page || 1\<close> it answers page \<open>n\<close> with the \<open>n\<close>-th response and
  returns undefined for every other page.
\<close>

fun nth_response :: "jsval list \<Rightarrow> int \<Rightarrow> jsval" where
  "nth_response [] n = JUndefined"
| "nth_response (r # rs) n = (if n = 1 then r else nth_response rs (n - 1))"

definition mockFetchFunction :: "jsval list \<Rightarrow> jsval \<Rightarrow> jsval thrown_or" where
  "mockFetchFunction rs params =
     (case getProp params ''page'' of
        Inl e \<Rightarrow> Inl e
      | Inr page \<Rightarrow>
          (case (if truthy page then page else JNum 1) of
             JNum n \<Rightarrow> Inr (nth_response rs n)
           | _ \<Rightarrow> Inr JUndefined))"

text \<open>The runaway endpoint of the test: every call returns the same response.\<close>

definition runawayFetchFunction :: "jsval \<Rightarrow> jsval \<Rightarrow> jsval thrown_or" where
  "runawayFetchFunction response params = Inr response"

text \<open>A page-fetching function that throws the same value on every call.\<close>

definition failingFetchFunction :: "jsval \<Rightarrow> jsval \<Rightarrow> jsval thrown_or" where
  "failingFetchFunction error params = Inl error"

definition mk_envelope :: "jsval list \<Rightarrow> jsval \<Rightarrow> jsval" where
  "mk_envelope items nextUrl =
     JObj [(''data'', JObj [(''results'', JArr items), (''next'', nextUrl)])]"

text \<open>The data of the tests: items \<open>{id: n}\<close> and the envelope responses of a page list.\<close>

definition item :: "int \<Rightarrow> jsval" where
  "item n = JObj [(''id'', JNum n)]"

definition envelopes :: "(jsval list \<times> jsval) list \<Rightarrow> jsval list" where
  "envelopes ps = map (\<lambda>p. mk_envelope (fst p) (snd p)) ps"

text \<open>Test 1: seven items served as 3 + 3 + 1.\<close>

definition test_pages :: "(jsval list \<times> jsval) list" where
  "test_pages =
     [([item 1, item 2, item 3], JStr ''page2''),
      ([item 4, item 5, item 6], JStr ''page3''),
      ([item 7], JNull)]"

text \<open>Two pages, the first with the empty string as its next indicator.\<close>

definition blank_next_pages :: "(jsval list \<times> jsval) list" where
  "blank_next_pages = [([item 1], JStr []), ([item 2], JNull)]"

text \<open>
  The shapes from which the engine takes a page of items: a response whose \<open>data\<close> is an
  array, a response whose \<open>data\<close> carries a \<open>results\<close> array, and a response without
  \<open>data\<close> that is itself an array. Every other response is unrecognized.
\<close>

definition recognized :: "jsval \<Rightarrow> bool" where
  "recognized response =
     (case getProp response ''data'' of
        Inl e \<Rightarrow> False
      | Inr data \<Rightarrow>
          if truthy data then
            isArray data \<or>
            (case getProp data ''results'' of Inl e \<Rightarrow> False | Inr results \<Rightarrow> isArray results)
          else isArray response)"

text \<open>
  What an unrecognized response adds to the result: its \<open>data.results\<close>, as one item,
  when \<open>data\<close> and \<open>data.results\<close> are both truthy, and nothing otherwise.
\<close>

definition single_item :: "jsval \<Rightarrow> jsval list" where
  "single_item response =
     (case getProp response ''data'' of
        Inl e \<Rightarrow> []
      | Inr data \<Rightarrow>
          (case getProp data ''results'' of
             Inl e \<Rightarrow> []
           | Inr results \<Rightarrow> if truthy data \<and> truthy results then [results] else []))"

text \<open>A response whose \<open>data\<close> has a single object, not an array, as its \<open>results\<close>.\<close>

definition odd_response :: jsval where
  "odd_response = JObj [(''data'', JObj [(''results'', item 9)])]"

text \<open>
  A page-fetching function that answers the first pages from a list of responses and
  throws on every later call.
\<close>

definition flakyFetchFunction :: "jsval list \<Rightarrow> jsval \<Rightarrow> jsval \<Rightarrow> jsval thrown_or" where
  "flakyFetchFunction rs error params =
     (case getProp params ''page'' of
        Inr (JNum n) \<Rightarrow> if 1 \<le> n \<and> n \<le> int (length rs) then Inr (nth_response rs n) else Inl error
      | _ \<Rightarrow> Inl error)"

definition two_pages :: "(jsval list \<times> jsval) list" where
  "two_pages =
     [([item 1, item 2, item 3], JStr ''page2''),
      ([item 4, item 5, item 6], JStr ''page3'')]"

text \<open>Test 3: every call returns one item and a next indicator.\<close>

definition runaway_response :: jsval where
  "runaway_response = mk_envelope [item 1] (JStr ''always_has_next'')"

text \<open>The same response with \<open>false\<close> as its next indicator.\<close>

definition false_next_response :: jsval where
  "false_next_response = mk_envelope [item 1] (JBool False)"

section \<open>Strings\<close>

text \<open>
  \<open>String(v)\<close>, as a template literal and \<open>toString()\<close> apply it: integers in decimal,
  arrays as their elements joined by commas (undefined and null as the empty string),
  a plain object as \<open>[object Object]\<close>.
\<close>

fun show_nat :: "nat \<Rightarrow> string" where
  "show_nat n =
     (if n < 10 then [''0123456789'' ! n]
      else show_nat (n div 10) @ [''0123456789'' ! (n mod 10)])"

declare show_nat.simps [simp del]

definition show_int :: "int \<Rightarrow> string" where
  "show_int n = (if n < 0 then CHR ''-'' # show_nat (nat (- n)) else show_nat (nat n))"

fun join_with :: "string \<Rightarrow> string list \<Rightarrow> string" where
  "join_with sep [] = []"
| "join_with sep [s] = s"
| "join_with sep (s # t # ss) = s @ sep @ join_with sep (t # ss)"

fun js_toString :: "jsval \<Rightarrow> string" where
  "js_toString JUndefined = ''undefined''"
| "js_toString JNull = ''null''"
| "js_toString (JBool b) = (if b then ''true'' else ''false'')"
| "js_toString (JNum n) = show_int n"
| "js_toString (JStr s) = s"
| "js_toString (JArr xs) =
     join_with '','' (map (\<lambda>x. if nullish x then [] else js_toString x) xs)"
| "js_toString (JObj kvs) = ''[object Object]''"

text \<open>\<open>v.toString()\<close>: a method call, so it throws on undefined and null.\<close>

definition toString_method :: "jsval \<Rightarrow> string thrown_or" where
  "toString_method v =
     (if nullish v then Inl (typeError ''Cannot read properties of undefined (reading toString)'')
      else Inr (js_toString v))"

text \<open>\<open>s.includes(t)\<close> on strings.\<close>

fun js_includes :: "string \<Rightarrow> string \<Rightarrow> bool" where
  "js_includes [] t = (t = [])"
| "js_includes (c # s) t = (take (length t) (c # s) = t \<or> js_includes s t)"

text \<open>\<open>s.split(c)\<close> for a one-character separator: never empty, one more segment than separators.\<close>

fun js_split :: "char \<Rightarrow> string \<Rightarrow> string list" where
  "js_split c [] = [[]]"
| "js_split c (x # xs) =
     (if x = c then [] # js_split c xs
      else (case js_split c xs of [] \<Rightarrow> [[x]] | seg # segs \<Rightarrow> (x # seg) # segs))"

section \<open>Effects: the transport, the file system and the request log\<close>

text \<open>
  The service talks to the remote server through the client that
  \<open>createAuthenticatedClient\<close> (taigaAuth.js) returns, and to the local file system. Both
  are parameters of the model: functions on a state of the outside world \<open>'w\<close> that
  return an outcome (a value, or a thrown error) and the next state. What the server
  answers, and whether authentication succeeds, is theirs to decide.
\<close>

type_synonym buffer = "nat list"

text \<open>A part of a multipart form: a text value, or file content with its file name.\<close>

datatype part = TextPart jsval | FilePart buffer string

type_synonym formdata = "(string \<times> part) list"

record 'w transport =
  createAuthenticatedClient :: "'w \<Rightarrow> unit thrown_or \<times> 'w"
  getAuthToken :: "'w \<Rightarrow> jsval thrown_or \<times> 'w"
  http_get :: "string \<Rightarrow> 'w \<Rightarrow> jsval thrown_or \<times> 'w"
  http_patch :: "string \<Rightarrow> jsval \<Rightarrow> 'w \<Rightarrow> jsval thrown_or \<times> 'w"
  http_post :: "string \<Rightarrow> formdata \<Rightarrow> 'w \<Rightarrow> jsval thrown_or \<times> 'w"

text \<open>
  The Node runtime: base64 decoding (\<open>Buffer.from(s, 'base64')\<close>) and encoding, the
  \<open>path\<close> module, the environment and the file system (read only, a function of the
  state of the world).
\<close>

record 'w runtime =
  bufferFrom :: "string \<Rightarrow> buffer thrown_or"
  toBase64 :: "buffer \<Rightarrow> string"
  isAbsolute :: "string \<Rightarrow> bool"
  resolve :: "string list \<Rightarrow> string"
  basename :: "string \<Rightarrow> string"
  cwd :: string
  env_HOME :: "string option"
  env_USERPROFILE :: "string option"
  os_homedir :: string
  existsSync :: "string \<Rightarrow> 'w \<Rightarrow> bool"
  readFileSync :: "string \<Rightarrow> 'w \<Rightarrow> buffer thrown_or"

text \<open>The constants of constants.js that the modelled functions read.\<close>

record constants =
  ISSUES :: string
  USER_STORIES :: string
  TASKS :: string
  EPICS :: string
  WIKI :: string
  ISSUE_ATTACHMENTS :: string
  USERSTORY_ATTACHMENTS :: string
  TASK_ATTACHMENTS :: string
  FAILED_TO_GET_ISSUE :: string
  FAILED_TO_UPDATE_WIKI :: string

text \<open>
  The log: every request sent through the client with its outcome, and every access to
  the file system, in the order in which they happen.
\<close>

datatype event =
    Get string "jsval thrown_or"
  | Patch string jsval "jsval thrown_or"
  | Post string formdata "jsval thrown_or"
  | Exists string bool
  | ReadFile string

type_synonym 'w state = "'w \<times> event list"

type_synonym ('w, 'a) io = "'w state \<Rightarrow> 'a thrown_or \<times> 'w state"

definition returnE :: "'a \<Rightarrow> ('w, 'a) io" where
  "returnE v = (\<lambda>s. (Inr v, s))"

definition throwE :: "jsval \<Rightarrow> ('w, 'a) io" where
  "throwE e = (\<lambda>s. (Inl e, s))"

definition liftE :: "'a thrown_or \<Rightarrow> ('w, 'a) io" where
  "liftE r = (\<lambda>s. (r, s))"

definition bindE :: "('w, 'a) io \<Rightarrow> ('a \<Rightarrow> ('w, 'b) io) \<Rightarrow> ('w, 'b) io" where
  "bindE m f = (\<lambda>s. case m s of (Inl e, s') \<Rightarrow> (Inl e, s') | (Inr v, s') \<Rightarrow> f v s')"

text \<open>\<open>try { m } catch (error) { h error }\<close>\<close>

definition tryCatch :: "('w, 'a) io \<Rightarrow> (jsval \<Rightarrow> ('w, 'a) io) \<Rightarrow> ('w, 'a) io" where
  "tryCatch m h = (\<lambda>s. case m s of (Inl e, s') \<Rightarrow> h e s' | (Inr v, s') \<Rightarrow> (Inr v, s'))"

definition acquire_client :: "'w transport \<Rightarrow> ('w, unit) io" where
  "acquire_client t = (\<lambda>(w, log). case createAuthenticatedClient t w of (r, w') \<Rightarrow> (r, (w', log)))"

definition acquire_token :: "'w transport \<Rightarrow> ('w, jsval) io" where
  "acquire_token t = (\<lambda>(w, log). case getAuthToken t w of (r, w') \<Rightarrow> (r, (w', log)))"

definition client_get :: "'w transport \<Rightarrow> string \<Rightarrow> ('w, jsval) io" where
  "client_get t url = (\<lambda>(w, log). case http_get t url w of (r, w') \<Rightarrow> (r, (w', log @ [Get url r])))"

definition client_patch :: "'w transport \<Rightarrow> string \<Rightarrow> jsval \<Rightarrow> ('w, jsval) io" where
  "client_patch t url body =
     (\<lambda>(w, log). case http_patch t url body w of (r, w') \<Rightarrow> (r, (w', log @ [Patch url body r])))"

definition client_post :: "'w transport \<Rightarrow> string \<Rightarrow> formdata \<Rightarrow> ('w, jsval) io" where
  "client_post t url form =
     (\<lambda>(w, log). case http_post t url form w of (r, w') \<Rightarrow> (r, (w', log @ [Post url form r])))"

text \<open>\<open>v?.k\<close>: undefined when \<open>v\<close> is undefined or null.\<close>

definition optProp :: "jsval \<Rightarrow> string \<Rightarrow> jsval thrown_or" where
  "optProp v k = (if nullish v then Inr JUndefined else getProp v k)"

text \<open>\<open>error.response?.status\<close>\<close>

definition response_status :: "jsval \<Rightarrow> jsval thrown_or" where
  "response_status error =
     (case getProp error ''response'' of Inl e \<Rightarrow> Inl e | Inr response \<Rightarrow> optProp response ''status'')"

text \<open>
  The catch block \<open>console.error(..., error.message); throw new Error(msg)\<close>: reading the
  message of a thrown undefined or null throws in its turn.
\<close>

definition log_and_throw :: "jsval \<Rightarrow> string \<Rightarrow> ('w, 'a) io" where
  "log_and_throw error msg =
     bindE (liftE (getProp error ''message'')) (\<lambda>m. throwE (newError msg))"

section \<open>Version-guarded updates (taigaService.js)\<close>

text \<open>
  Identifiers reach the service as numbers or strings; a URL is the endpoint, a slash and
  the identifier as the template literal prints it. An item type is a string, looked up in
  the table of the three kinds; an empty endpoint is falsy and gives the default as well.
  (Names that every object inherits, such as \<open>constructor\<close>, are not item types.)
\<close>

definition item_url :: "string \<Rightarrow> jsval \<Rightarrow> string" where
  "item_url endpoint itemId = endpoint @ ''/'' @ js_toString itemId"

definition or_default :: "string option \<Rightarrow> string \<Rightarrow> string" where
  "or_default entry dflt = (case entry of Some s \<Rightarrow> if s \<noteq> [] then s else dflt | None \<Rightarrow> dflt)"

definition getItemEndpoint :: "constants \<Rightarrow> string \<Rightarrow> string" where
  "getItemEndpoint k itemType =
     or_default
       (map_of [(''issue'', ISSUES k), (''user_story'', USER_STORIES k), (''task'', TASKS k)] itemType)
       (ISSUES k)"

definition getIssue :: "'w transport \<Rightarrow> constants \<Rightarrow> jsval \<Rightarrow> ('w, jsval) io" where
  "getIssue t k issueId =
     tryCatch
       (bindE (acquire_client t) (\<lambda>client.
        bindE (client_get t (item_url (ISSUES k) issueId)) (\<lambda>response.
        liftE (getProp response ''data''))))
       (\<lambda>error. log_and_throw error (FAILED_TO_GET_ISSUE k))"

definition updateIssue :: "'w transport \<Rightarrow> constants \<Rightarrow> jsval \<Rightarrow> jsobj \<Rightarrow> ('w, jsval) io" where
  "updateIssue t k issueId updateData =
     tryCatch
       (bindE (acquire_client t) (\<lambda>client.
        bindE (getIssue t k issueId) (\<lambda>currentIssue.
        bindE (liftE (getProp currentIssue ''version'')) (\<lambda>version.
        bindE (client_patch t (item_url (ISSUES k) issueId)
                 (JObj (AList.update ''version'' version updateData))) (\<lambda>response.
        liftE (getProp response ''data''))))))
       (\<lambda>error. log_and_throw error ''Failed to update issue in Taiga'')"

definition getEpic :: "'w transport \<Rightarrow> constants \<Rightarrow> jsval \<Rightarrow> ('w, jsval) io" where
  "getEpic t k epicId =
     tryCatch
       (bindE (acquire_client t) (\<lambda>client.
        bindE (client_get t (item_url (EPICS k) epicId)) (\<lambda>response.
        liftE (getProp response ''data''))))
       (\<lambda>error. log_and_throw error ''Failed to get epic details from Taiga'')"

definition updateEpic :: "'w transport \<Rightarrow> constants \<Rightarrow> jsval \<Rightarrow> jsobj \<Rightarrow> ('w, jsval) io" where
  "updateEpic t k epicId updateData =
     tryCatch
       (bindE (acquire_client t) (\<lambda>client.
        bindE (getEpic t k epicId) (\<lambda>currentEpic.
        bindE (liftE (getProp currentEpic ''version'')) (\<lambda>version.
        bindE (client_patch t (item_url (EPICS k) epicId)
                 (JObj (AList.update ''version'' version updateData))) (\<lambda>response.
        liftE (getProp response ''data''))))))
       (\<lambda>error. log_and_throw error ''Failed to update epic in Taiga'')"

text \<open>\<open>current.data.version\<close> of a response read directly through the client.\<close>

definition data_version :: "jsval \<Rightarrow> jsval thrown_or" where
  "data_version response =
     (case getProp response ''data'' of Inl e \<Rightarrow> Inl e | Inr d \<Rightarrow> getProp d ''version'')"

definition updateWikiPage :: "'w transport \<Rightarrow> constants \<Rightarrow> jsval \<Rightarrow> jsobj \<Rightarrow> ('w, jsval) io" where
  "updateWikiPage t k wikiPageId updateData =
     tryCatch
       (bindE (acquire_client t) (\<lambda>client.
        bindE (client_get t (item_url (WIKI k) wikiPageId)) (\<lambda>currentWiki.
        bindE (liftE (data_version currentWiki)) (\<lambda>version.
        bindE (client_patch t (item_url (WIKI k) wikiPageId)
                 (JObj (AList.update ''version'' version updateData))) (\<lambda>response.
        liftE (getProp response ''data''))))))
       (\<lambda>error. log_and_throw error (FAILED_TO_UPDATE_WIKI k))"

definition linkStoryToEpic :: "'w transport \<Rightarrow> constants \<Rightarrow> jsval \<Rightarrow> jsval \<Rightarrow> ('w, jsval) io" where
  "linkStoryToEpic t k userStoryId epicId =
     tryCatch
       (bindE (acquire_client t) (\<lambda>client.
        bindE (client_get t (item_url (USER_STORIES k) userStoryId)) (\<lambda>currentStory.
        bindE (liftE (data_version currentStory)) (\<lambda>version.
        bindE (client_patch t (item_url (USER_STORIES k) userStoryId)
                 (JObj [(''epic'', epicId), (''version'', version)])) (\<lambda>response.
        liftE (getProp response ''data''))))))
       (\<lambda>error. log_and_throw error ''Failed to link user story to epic'')"

definition unlinkStoryFromEpic :: "'w transport \<Rightarrow> constants \<Rightarrow> jsval \<Rightarrow> ('w, jsval) io" where
  "unlinkStoryFromEpic t k userStoryId =
     tryCatch
       (bindE (acquire_client t) (\<lambda>client.
        bindE (client_get t (item_url (USER_STORIES k) userStoryId)) (\<lambda>currentStory.
        bindE (liftE (data_version currentStory)) (\<lambda>version.
        bindE (client_patch t (item_url (USER_STORIES k) userStoryId)
                 (JObj [(''epic'', JNull), (''version'', version)])) (\<lambda>response.
        liftE (getProp response ''data''))))))
       (\<lambda>error. log_and_throw error ''Failed to unlink user story from epic'')"

text \<open>
  \<open>getItemVersion\<close>: \<open>if (typeof version !== 'number') return 1; return version\<close>. The
  catch blocks that choose their message by the HTTP status are definitions of their own,
  named after their function.
\<close>

definition versionOrDefault :: "jsval \<Rightarrow> jsval" where
  "versionOrDefault version = (case version of JNum n \<Rightarrow> JNum n | _ \<Rightarrow> JNum 1)"

definition getItemVersion_catch :: "string \<Rightarrow> jsval \<Rightarrow> jsval \<Rightarrow> ('w, jsval) io" where
  "getItemVersion_catch itemType itemId error =
     bindE (liftE (response_status error)) (\<lambda>status.
     if status = JNum 404 then
       throwE (newError (itemType @ '' #'' @ js_toString itemId @ '' not found''))
     else if status = JNum 403 then
       throwE (newError (''Permission denied accessing '' @ itemType @ '' #'' @ js_toString itemId))
     else
       bindE (liftE (getProp error ''message'')) (\<lambda>m.
       throwE (newError (''Failed to get '' @ itemType @ '' version: '' @ js_toString m))))"

definition getItemVersion :: "'w transport \<Rightarrow> constants \<Rightarrow> string \<Rightarrow> jsval \<Rightarrow> ('w, jsval) io" where
  "getItemVersion t k itemType itemId =
     tryCatch
       (bindE (acquire_client t) (\<lambda>client.
        bindE (client_get t (item_url (getItemEndpoint k itemType) itemId)) (\<lambda>response.
        bindE (liftE (data_version response)) (\<lambda>version.
        returnE (versionOrDefault version)))))
       (getItemVersion_catch itemType itemId)"

text \<open>\<open>error.response?.data?.version\<close>\<close>

definition response_data_version :: "jsval \<Rightarrow> jsval thrown_or" where
  "response_data_version error =
     (case getProp error ''response'' of
        Inl e \<Rightarrow> Inl e
      | Inr response \<Rightarrow>
          (case optProp response ''data'' of Inl e \<Rightarrow> Inl e | Inr d \<Rightarrow> optProp d ''version''))"

definition addComment_catch :: "string \<Rightarrow> jsval \<Rightarrow> jsval \<Rightarrow> ('w, jsval) io" where
  "addComment_catch itemType itemId error =
     bindE (liftE (response_status error)) (\<lambda>status.
     if status = JNum 400 then
       bindE (liftE (response_data_version error)) (\<lambda>v.
       throwE (newError (''Failed to add comment to Taiga: '' @
         (if truthy v
          then ''Version parameter is invalid. The item may have been modified by another user.''
          else ''Bad request. Please check the comment data format.''))))
     else if status = JNum 403 then
       throwE (newError
         ''Failed to add comment to Taiga: Permission denied. Check your access rights.'')
     else if status = JNum 404 then
       throwE (newError (''Failed to add comment to Taiga: '' @ itemType @ '' #'' @
         js_toString itemId @ '' not found.''))
     else
       bindE (liftE (getProp error ''message'')) (\<lambda>m.
       throwE (newError (''Failed to add comment to Taiga: '' @ js_toString m))))"

definition addComment ::
  "'w transport \<Rightarrow> constants \<Rightarrow> string \<Rightarrow> jsval \<Rightarrow> jsval \<Rightarrow> ('w, jsval) io" where
  "addComment t k itemType itemId commentData =
     tryCatch
       (bindE (acquire_client t) (\<lambda>client.
        bindE (getItemVersion t k itemType itemId) (\<lambda>currentVersion.
        bindE (liftE (getProp commentData ''comment'')) (\<lambda>comment.
        bindE (client_patch t (item_url (getItemEndpoint k itemType) itemId)
                 (JObj [(''comment'', comment), (''version'', currentVersion)])) (\<lambda>response.
        liftE (getProp response ''data''))))))
       (addComment_catch itemType itemId)"

text \<open>The six version-guarded updates, as one family.\<close>

datatype guarded_update =
    UpdateIssue jsval jsobj
  | UpdateEpic jsval jsobj
  | UpdateWikiPage jsval jsobj
  | LinkStoryToEpic jsval jsval
  | UnlinkStoryFromEpic jsval
  | AddComment string jsval jsval

fun run_update :: "'w transport \<Rightarrow> constants \<Rightarrow> guarded_update \<Rightarrow> ('w, jsval) io" where
  "run_update t k (UpdateIssue issueId updateData) = updateIssue t k issueId updateData"
| "run_update t k (UpdateEpic epicId updateData) = updateEpic t k epicId updateData"
| "run_update t k (UpdateWikiPage wikiPageId updateData) = updateWikiPage t k wikiPageId updateData"
| "run_update t k (LinkStoryToEpic userStoryId epicId) = linkStoryToEpic t k userStoryId epicId"
| "run_update t k (UnlinkStoryFromEpic userStoryId) = unlinkStoryFromEpic t k userStoryId"
| "run_update t k (AddComment itemType itemId commentData) = addComment t k itemType itemId commentData"

text \<open>
  The URL of the resource that an update targets: the endpoint of its kind, a slash and
  the identifier. A comment goes to the item it comments.
\<close>

fun target_url :: "constants \<Rightarrow> guarded_update \<Rightarrow> string" where
  "target_url k (UpdateIssue issueId updateData) = item_url (ISSUES k) issueId"
| "target_url k (UpdateEpic epicId updateData) = item_url (EPICS k) epicId"
| "target_url k (UpdateWikiPage wikiPageId updateData) = item_url (WIKI k) wikiPageId"
| "target_url k (LinkStoryToEpic userStoryId epicId) = item_url (USER_STORIES k) userStoryId"
| "target_url k (UnlinkStoryFromEpic userStoryId) = item_url (USER_STORIES k) userStoryId"
| "target_url k (AddComment itemType itemId commentData) =
     item_url (getItemEndpoint k itemType) itemId"


text \<open>
  Two conditions on the server. It authenticates: the client is obtained whenever it is
  asked for. It serves a resource at version \<open>v\<close> under a URL: every read of the URL
  succeeds with a response whose \<open>data\<close> has \<open>v\<close> as its \<open>version\<close> property
  (undefined when the resource has none).
\<close>

definition authenticates :: "'w transport \<Rightarrow> bool" where
  "authenticates t = (\<forall>w. \<exists>w'. createAuthenticatedClient t w = (Inr (), w'))"

definition serves_version :: "'w transport \<Rightarrow> string \<Rightarrow> jsval \<Rightarrow> bool" where
  "serves_version t url v =
     (\<forall>w. \<exists>w' response d. http_get t url w = (Inr response, w') \<and>
        getProp response ''data'' = Inr d \<and> getProp d ''version'' = Inr v)"

text \<open>
  A server for the tests: authentication succeeds, every read returns the same resource,
  every write is accepted and answered with the body it was sent. The endpoints stand
  for those of constants.js.
\<close>

definition stub_transport :: "jsval \<Rightarrow> 'w transport" where
  "stub_transport resource =
     \<lparr>createAuthenticatedClient = (\<lambda>w. (Inr (), w)),
      getAuthToken = (\<lambda>w. (Inr (JStr ''token''), w)),
      http_get = (\<lambda>url w. (Inr (JObj [(''data'', resource)]), w)),
      http_patch = (\<lambda>url body w. (Inr (JObj [(''data'', body)]), w)),
      http_post = (\<lambda>url form w. (Inr (JObj [(''data'', JObj [(''id'', JNum 1)])]), w))\<rparr>"

text \<open>The same server with an authentication that fails.\<close>

definition unauthenticated_transport :: "jsval \<Rightarrow> 'w transport" where
  "unauthenticated_transport error =
     (stub_transport JNull)\<lparr>createAuthenticatedClient := (\<lambda>w. (Inl error, w))\<rparr>"

definition test_constants :: constants where
  "test_constants =
     \<lparr>ISSUES = ''/issues'', USER_STORIES = ''/userstories'', TASKS = ''/tasks'',
      EPICS = ''/epics'', WIKI = ''/wiki'',
      ISSUE_ATTACHMENTS = ''/issues/attachments'',
      USERSTORY_ATTACHMENTS = ''/userstories/attachments'',
      TASK_ATTACHMENTS = ''/tasks/attachments'',
      FAILED_TO_GET_ISSUE = ''Failed to get issue details from Taiga'',
      FAILED_TO_UPDATE_WIKI = ''Failed to update wiki page in Taiga''\<rparr>"

text \<open>An issue at version 5, and an issue whose representation carries no version.\<close>

definition issue_v5 :: jsval where
  "issue_v5 = JObj [(''id'', JNum 42), (''subject'', JStr ''Login fails''), (''version'', JNum 5)]"

definition issue_unversioned :: jsval where
  "issue_unversioned = JObj [(''id'', JNum 42), (''subject'', JStr ''Login fails'')]"


section \<open>The attachment pipeline (taigaService.js)\<close>

text \<open>\<open>typeof v === 'string'\<close>, and the characters of a value known to be a string.\<close>

fun isString :: "jsval \<Rightarrow> bool" where
  "isString (JStr s) = True"
| "isString v = False"

fun string_of :: "jsval \<Rightarrow> string" where
  "string_of (JStr s) = s"
| "string_of v = []"

definition getAttachmentEndpoint :: "constants \<Rightarrow> string \<Rightarrow> string" where
  "getAttachmentEndpoint k itemType =
     or_default
       (map_of [(''issue'', ISSUE_ATTACHMENTS k), (''user_story'', USERSTORY_ATTACHMENTS k),
                (''task'', TASK_ATTACHMENTS k)] itemType)
       (ISSUE_ATTACHMENTS k)"

definition getItemData :: "'w transport \<Rightarrow> constants \<Rightarrow> string \<Rightarrow> jsval \<Rightarrow> ('w, jsval) io" where
  "getItemData t k itemType itemId =
     bindE (acquire_client t) (\<lambda>client.
     bindE (client_get t (item_url (getItemEndpoint k itemType) itemId)) (\<lambda>response.
     liftE (getProp response ''data'')))"

subsection \<open>Upload of base64 data\<close>

text \<open>
  \<open>fileData.includes(',') ? fileData.split(',')[1] : fileData\<close>: the second segment
  of the split, which is undefined only if there is none.
\<close>

definition element_at :: "string list \<Rightarrow> nat \<Rightarrow> jsval" where
  "element_at segs i = (if i < length segs then JStr (segs ! i) else JUndefined)"

definition base64Data :: "string \<Rightarrow> jsval" where
  "base64Data fileData =
     (if js_includes fileData '','' then element_at (js_split (CHR '','') fileData) 1
      else JStr fileData)"

text \<open>\<open>Buffer.from(v, 'base64')\<close>: the runtime's decoder on a string, a TypeError on undefined.\<close>

definition buffer_from :: "'w runtime \<Rightarrow> jsval \<Rightarrow> buffer thrown_or" where
  "buffer_from rt v =
     (case v of
        JStr s \<Rightarrow> bufferFrom rt s
      | _ \<Rightarrow> Inl (typeError ''The first argument must be of type string or an instance of Buffer''))"

text \<open>The inner \<open>try\<close> block with its \<open>catch\<close>: the binary buffer that will be transmitted.\<close>

definition decodeFileData :: "'w runtime \<Rightarrow> string \<Rightarrow> buffer thrown_or" where
  "decodeFileData rt fileData =
     (case buffer_from rt (base64Data fileData) of
        Inr fileBuffer \<Rightarrow> Inr fileBuffer
      | Inl error \<Rightarrow>
          (case getProp error ''message'' of
             Inl e \<Rightarrow> Inl e
           | Inr m \<Rightarrow> Inl (newError (''Invalid base64 data: '' @ js_toString m))))"

text \<open>
  The best-effort project field: the fields that the \<open>try { getItemData ... } catch {}\<close>
  block appends to the form.
\<close>

definition project_field :: "'w transport \<Rightarrow> constants \<Rightarrow> string \<Rightarrow> jsval \<Rightarrow> ('w, formdata) io" where
  "project_field t k itemType itemId =
     tryCatch
       (bindE (getItemData t k itemType itemId) (\<lambda>itemData.
        if truthy itemData then
          bindE (liftE (getProp itemData ''project'')) (\<lambda>project.
          if truthy project then
            bindE (liftE (toString_method project)) (\<lambda>p. returnE [(''project'', TextPart (JStr p))])
          else returnE [])
        else returnE []))
       (\<lambda>projectError. returnE [])"

text \<open>
  \<open>error.message.includes(t)\<close>: a TypeError when the error is undefined or null, or when
  its message is neither a string nor an array.
\<close>

definition message_includes :: "jsval \<Rightarrow> string \<Rightarrow> bool thrown_or" where
  "message_includes error t =
     (case getProp error ''message'' of
        Inl e \<Rightarrow> Inl e
      | Inr m \<Rightarrow>
          (case m of
             JStr s \<Rightarrow> Inr (js_includes s t)
           | JArr xs \<Rightarrow> Inr (JStr t \<in> set xs)
           | _ \<Rightarrow> Inl (typeError ''error.message.includes is not a function'')))"

definition uploadAttachment_catch :: "jsval \<Rightarrow> ('w, jsval) io" where
  "uploadAttachment_catch error =
     bindE (liftE (message_includes error ''Invalid base64'')) (\<lambda>invalid.
     if invalid then
       bindE (liftE (getProp error ''message'')) (\<lambda>m.
       throwE (newError (''Invalid file data format: '' @ js_toString m)))
     else
       bindE (liftE (message_includes error ''cb is not a function'')) (\<lambda>callback.
       if callback then throwE (newError ''Upload failed due to form-data callback issue'')
       else
         bindE (liftE (response_status error)) (\<lambda>status.
         if status = JNum 413 then throwE (newError ''File too large for upload'')
         else if status = JNum 401 then
           throwE (newError ''Authentication failed - please check credentials'')
         else if status = JNum 404 then
           throwE (newError ''Upload endpoint not found - check item ID and type'')
         else
           bindE (liftE (getProp error ''message'')) (\<lambda>m.
           throwE (newError (''Failed to upload attachment to Taiga: '' @ js_toString m))))))"

text \<open>
  \<open>uploadAttachment(itemType, itemId, fileData, fileName, mimeType, description)\<close>. The
  function obtains the client and the token first, then validates its arguments; it
  never reads \<open>mimeType\<close>. The dynamic import of the form-data module is taken to succeed.
\<close>

definition uploadAttachment ::
  "'w transport \<Rightarrow> constants \<Rightarrow> 'w runtime \<Rightarrow> string \<Rightarrow> jsval \<Rightarrow> jsval \<Rightarrow> jsval \<Rightarrow> jsval \<Rightarrow> jsval
     \<Rightarrow> ('w, jsval) io" where
  "uploadAttachment t k rt itemType itemId fileData fileName mimeType description =
     tryCatch
       (bindE (acquire_client t) (\<lambda>client.
        bindE (acquire_token t) (\<lambda>token.
        if \<not> truthy fileData \<or> \<not> isString fileData then
          throwE (newError ''Invalid file data: fileData must be a base64 encoded string'')
        else if \<not> truthy fileName \<or> \<not> isString fileName then
          throwE (newError ''Invalid file name: fileName is required'')
        else
          bindE (liftE (decodeFileData rt (string_of fileData))) (\<lambda>fileBuffer.
          bindE (liftE (toString_method itemId)) (\<lambda>objectId.
          bindE (project_field t k itemType itemId) (\<lambda>project.
          bindE (client_post t (getAttachmentEndpoint k itemType)
                   ([(''object_id'', TextPart (JStr objectId)),
                     (''attached_file'', FilePart fileBuffer (string_of fileName))]
                    @ (if truthy description then [(''description'', TextPart description)] else [])
                    @ project)) (\<lambda>response.
          liftE (getProp response ''data''))))))))
       uploadAttachment_catch"

subsection \<open>Upload from a file path\<close>

text \<open>\<open>process.env.HOME || process.env.USERPROFILE || os.homedir()\<close>\<close>

definition homeDir :: "'w runtime \<Rightarrow> string" where
  "homeDir rt = or_default (env_HOME rt) (or_default (env_USERPROFILE rt) (os_homedir rt))"

text \<open>The four candidate locations of a relative path, in the order of the source.\<close>

definition possiblePaths :: "'w runtime \<Rightarrow> string \<Rightarrow> string list" where
  "possiblePaths rt filePath =
     [resolve rt [cwd rt, filePath],
      resolve rt [homeDir rt, filePath],
      resolve rt [homeDir rt, ''Desktop'', filePath],
      resolve rt [homeDir rt, ''Downloads'', filePath]]"

definition searchedPaths :: "'w runtime \<Rightarrow> string \<Rightarrow> string list" where
  "searchedPaths rt filePath =
     (if isAbsolute rt filePath then [filePath] else possiblePaths rt filePath)"

definition exists_sync :: "'w runtime \<Rightarrow> string \<Rightarrow> ('w, bool) io" where
  "exists_sync rt path =
     (\<lambda>(w, log). (Inr (existsSync rt path w), (w, log @ [Exists path (existsSync rt path w)])))"

definition read_file :: "'w runtime \<Rightarrow> string \<Rightarrow> ('w, buffer) io" where
  "read_file rt path = (\<lambda>(w, log). (readFileSync rt path w, (w, log @ [ReadFile path])))"

text \<open>The \<open>for (const tryPath of possiblePaths)\<close> loop: the first path that exists, if any.\<close>

fun probe :: "'w runtime \<Rightarrow> string list \<Rightarrow> ('w, string option) io" where
  "probe rt [] = returnE None"
| "probe rt (tryPath # rest) =
     bindE (exists_sync rt tryPath) (\<lambda>found.
     if found then returnE (Some tryPath) else probe rt rest)"

text \<open>
  The \<open>if (path.isAbsolute(filePath)) ... else ...\<close> block: \<open>absolutePath\<close> when
  \<open>fileExists\<close> is true, nothing when it is false.
\<close>

definition locateFile :: "'w runtime \<Rightarrow> string \<Rightarrow> ('w, string option) io" where
  "locateFile rt filePath =
     (if isAbsolute rt filePath then
        bindE (exists_sync rt filePath) (\<lambda>found. returnE (if found then Some filePath else None))
      else probe rt (possiblePaths rt filePath))"

text \<open>\<open>detectMimeType\<close>: the extension after the last dot, in lower case, in a fixed table.\<close>

definition to_lower :: "char \<Rightarrow> char" where
  "to_lower c =
     (if 65 \<le> (of_char c :: nat) \<and> (of_char c :: nat) \<le> 90 then char_of ((of_char c :: nat) + 32)
      else c)"

definition mimeTypes :: "(string \<times> string) list" where
  "mimeTypes =
     [(''jpg'', ''image/jpeg''), (''jpeg'', ''image/jpeg''), (''png'', ''image/png''),
      (''gif'', ''image/gif''), (''pdf'', ''application/pdf''), (''txt'', ''text/plain''),
      (''doc'', ''application/msword''),
      (''docx'', ''application/vnd.openxmlformats-officedocument.wordprocessingml.document''),
      (''xls'', ''application/vnd.ms-excel''),
      (''xlsx'', ''application/vnd.openxmlformats-officedocument.spreadsheetml.sheet''),
      (''zip'', ''application/zip''), (''mp4'', ''video/mp4''), (''mp3'', ''audio/mpeg'')]"

definition detectMimeType :: "string \<Rightarrow> string" where
  "detectMimeType fileName =
     or_default (map_of mimeTypes (last (js_split (CHR ''.'') (map to_lower fileName))))
       ''application/octet-stream''"

definition uploadAttachmentFromPath ::
  "'w transport \<Rightarrow> constants \<Rightarrow> 'w runtime \<Rightarrow> string \<Rightarrow> jsval \<Rightarrow> jsval \<Rightarrow> jsval \<Rightarrow> ('w, jsval) io" where
  "uploadAttachmentFromPath t k rt itemType itemId filePath description =
     tryCatch
       (if \<not> truthy filePath \<or> \<not> isString filePath then
          throwE (newError (''Invalid file path: '' @ js_toString filePath))
        else
          bindE (locateFile rt (string_of filePath)) (\<lambda>located.
          case located of
            None \<Rightarrow>
              throwE (newError (''File not found. Searched paths:'' @ [CHR 0x0A] @
                join_with [CHR 0x0A] (searchedPaths rt (string_of filePath))))
          | Some absolutePath \<Rightarrow>
              bindE (read_file rt absolutePath) (\<lambda>fileBuffer.
              uploadAttachment t k rt itemType itemId
                (JStr (toBase64 rt fileBuffer))
                (JStr (basename rt absolutePath))
                (JStr (detectMimeType (basename rt absolutePath)))
                description)))
       (\<lambda>error.
          bindE (liftE (getProp error ''message'')) (\<lambda>m.
          throwE (newError (''Failed to upload attachment from path: '' @ js_toString m))))"

text \<open>
  A runtime for the tests. The decoder stands for Node's: like \<open>Buffer.from\<close> it never
  throws on a string; it skips the characters outside the base64 alphabet and gives the
  codes of the others (it is not a base64 decoder). Paths are joined with slashes; the
  world is the list of the files that exist.
\<close>

definition base64_char :: "char \<Rightarrow> bool" where
  "base64_char c =
     (c \<in> set ''ABCDEFGHIJKLMNOPQRSTUVWXYZabcdefghijklmnopqrstuvwxyz0123456789+/='')"

definition stub_runtime :: "string list runtime" where
  "stub_runtime =
     \<lparr>bufferFrom = (\<lambda>s. Inr (map of_char (filter base64_char s))),
      toBase64 = map char_of,
      isAbsolute = (\<lambda>p. take 1 p = ''/''),
      resolve = join_with ''/'',
      basename = (\<lambda>p. last (js_split (CHR ''/'') p)),
      cwd = ''/srv/app'',
      env_HOME = Some ''/home/ana'',
      env_USERPROFILE = None,
      os_homedir = ''/root'',
      existsSync = (\<lambda>p w. p \<in> set w),
      readFileSync = (\<lambda>p w. if p \<in> set w then Inr [105, 86, 66, 79] else Inl (newError ''ENOENT''))\<rparr>"

section \<open>Log discipline\<close>

text \<open>A computation that leaves the events already in the log as they are and adds its own at the end.\<close>

definition appends :: "('w, 'a) io \<Rightarrow> bool" where
  "appends m = (\<forall>w log. \<exists>rest. snd (snd (m (w, log))) = log @ rest)"

section \<open>Properties of the pagination engine\<close>

subsection \<open>One iteration of the loop\<close>

lemma fetch_loop_stop:
  "maxPages < currentPage \<Longrightarrow>
   fetch_loop f init maxPages allItems currentPage hasMore calls = (Inr allItems, calls)"
  by (subst fetch_loop.simps) simp

lemma fetch_loop_throw:
  "currentPage \<le> maxPages \<Longrightarrow> f (page_params init currentPage) = Inl e \<Longrightarrow>
   fetch_loop f init maxPages allItems currentPage True calls =
     (pagination_catch e allItems, calls @ [page_params init currentPage])"
  by (subst fetch_loop.simps) simp

lemma fetch_loop_bad_response:
  "currentPage \<le> maxPages \<Longrightarrow> f (page_params init currentPage) = Inr r \<Longrightarrow>
   read_page r = Inl e \<Longrightarrow>
   fetch_loop f init maxPages allItems currentPage True calls =
     (pagination_catch e allItems, calls @ [page_params init currentPage])"
  by (subst fetch_loop.simps) simp

lemma fetch_loop_final:
  "currentPage \<le> maxPages \<Longrightarrow> f (page_params init currentPage) = Inr r \<Longrightarrow>
   read_page r = Inr (items, False) \<Longrightarrow>
   fetch_loop f init maxPages allItems currentPage True calls =
     (Inr (js_concat allItems items), calls @ [page_params init currentPage])"
  by (subst fetch_loop.simps) simp

lemma read_page_envelope:
  "envelope_of r = Some (items, nextUrl) \<Longrightarrow> read_page r = Inr (JArr items, truthy nextUrl)"
  by (auto simp: envelope_of_def read_page_def split: sum.splits jsval.splits option.splits)

lemma fetch_loop_next:
  "currentPage \<le> maxPages \<Longrightarrow> f (page_params init currentPage) = Inr r \<Longrightarrow>
   envelope_of r = Some (items, nextUrl) \<Longrightarrow> items \<noteq> [] \<Longrightarrow> truthy nextUrl \<Longrightarrow>
   fetch_loop f init maxPages allItems currentPage True calls =
     fetch_loop f init maxPages (allItems @ items) (currentPage + 1) True
       (calls @ [page_params init currentPage])"
  by (subst fetch_loop.simps) (simp add: read_page_envelope length_is_zero_def)

lemma fetch_loop_pages:
  "serves_pages f init c ps \<Longrightarrow> list_all nonempty_page ps \<Longrightarrow> list_all next_truthy ps \<Longrightarrow>
   c + int (length ps) \<le> maxPages + 1 \<Longrightarrow>
   fetch_loop f init maxPages allItems c True calls =
     fetch_loop f init maxPages (allItems @ concat (map fst ps)) (c + int (length ps)) True
       (calls @ map (page_params init) [c..c + int (length ps) - 1])"
proof (induction ps arbitrary: c allItems calls)
  case Nil
  then show ?case by simp
next
  case (Cons p ps)
  obtain items nextUrl where p: "p = (items, nextUrl)" by (cases p)
  from Cons.prems obtain r where r: "f (page_params init c) = Inr r" "envelope_of r = Some (items, nextUrl)"
    and rest: "serves_pages f init (c + 1) ps"
    by (auto simp: p split: sum.splits)
  from Cons.prems have alls: "list_all nonempty_page ps" "list_all next_truthy ps"
    and hd: "nonempty_page p" "next_truthy p"
    by simp_all
  from hd have ne: "items \<noteq> []" and tr: "truthy nextUrl"
    by (simp_all add: p nonempty_page_def next_truthy_def)
  from Cons.prems have le: "c \<le> maxPages" and le': "(c + 1) + int (length ps) \<le> maxPages + 1"
    by simp_all
  have up: "[c..c + int (length ps)] = c # [c + 1..c + int (length ps)]"
    by (rule upto_rec1) simp
  have "fetch_loop f init maxPages allItems c True calls =
        fetch_loop f init maxPages (allItems @ items) (c + 1) True (calls @ [page_params init c])"
    by (rule fetch_loop_next [where f = f and init = init, OF le r ne tr])
  also have "\<dots> = fetch_loop f init maxPages ((allItems @ items) @ concat (map fst ps))
        ((c + 1) + int (length ps)) True
        ((calls @ [page_params init c]) @ map (page_params init) [c + 1..(c + 1) + int (length ps) - 1])"
    using rest alls le' by (rule Cons.IH)
  finally show ?case
    by (simp add: p up ac_simps)
qed

subsection \<open>Traversals that start with a run of full pages\<close>

lemma serves_pages_append:
  "serves_pages f init c (xs @ ys) =
     (serves_pages f init c xs \<and> serves_pages f init (c + int (length xs)) ys)"
  by (induction xs arbitrary: c) (simp_all add: ac_simps)

lemma pagination_catch_error: "\<not> nullish e \<Longrightarrow> pagination_catch e allItems = Inr allItems"
  by (cases e) (simp_all add: pagination_catch_def)

lemma getProp_throws: "getProp v k = Inl e \<Longrightarrow> \<not> nullish e"
  by (cases v) (auto simp: typeError_def)

lemma read_page_throws: "read_page r = Inl e \<Longrightarrow> \<not> nullish e"
  by (auto simp: read_page_def split: if_splits sum.splits dest: getProp_throws)

lemma length_is_zero_throws: "length_is_zero items = Inl e \<Longrightarrow> \<not> nullish e"
  by (auto simp: length_is_zero_def split: sum.splits dest: getProp_throws)

lemma upto_snoc: "[1..1 + int n] = [1..int n] @ [1 + int n]"
  using upto_rec2 [of 1 "1 + int n"] by simp

lemma pages_then_throw:
  assumes "serves_pages f init 1 ps" "list_all nonempty_page ps" "list_all next_truthy ps"
    and "int (length ps) < maxPages" and "f (page_params init (int (length ps) + 1)) = Inl e"
  shows "fetchAllPaginated f init maxPages =
     (pagination_catch e (concat (map fst ps)), map (page_params init) [1..int (length ps) + 1])"
proof -
  have "fetchAllPaginated f init maxPages =
        fetch_loop f init maxPages (concat (map fst ps)) (1 + int (length ps)) True
          (map (page_params init) [1..int (length ps)])"
    unfolding fetchAllPaginated_def
    using fetch_loop_pages [OF assms(1-3), of maxPages "[]" "[]"] assms(4) by simp
  also have "\<dots> = (pagination_catch e (concat (map fst ps)),
        map (page_params init) [1..int (length ps)] @ [page_params init (1 + int (length ps))])"
    using assms(4,5) by (intro fetch_loop_throw) (simp_all add: ac_simps)
  finally show ?thesis by (simp add: upto_snoc ac_simps)
qed

lemma pages_then_bad_response:
  assumes "serves_pages f init 1 ps" "list_all nonempty_page ps" "list_all next_truthy ps"
    and "int (length ps) < maxPages" and "f (page_params init (int (length ps) + 1)) = Inr r"
    and "read_page r = Inl e"
  shows "fetchAllPaginated f init maxPages =
     (Inr (concat (map fst ps)), map (page_params init) [1..int (length ps) + 1])"
proof -
  have "fetchAllPaginated f init maxPages =
        fetch_loop f init maxPages (concat (map fst ps)) (1 + int (length ps)) True
          (map (page_params init) [1..int (length ps)])"
    unfolding fetchAllPaginated_def
    using fetch_loop_pages [OF assms(1-3), of maxPages "[]" "[]"] assms(4) by simp
  also have "\<dots> = (pagination_catch e (concat (map fst ps)),
        map (page_params init) [1..int (length ps)] @ [page_params init (1 + int (length ps))])"
    using assms(4,5,6) by (intro fetch_loop_bad_response) (simp_all add: ac_simps)
  finally show ?thesis
    using read_page_throws [OF assms(6)] by (simp add: upto_snoc ac_simps pagination_catch_error)
qed

lemma pages_then_final:
  assumes "serves_pages f init 1 ps" "list_all nonempty_page ps" "list_all next_truthy ps"
    and "int (length ps) < maxPages" and "f (page_params init (int (length ps) + 1)) = Inr r"
    and "read_page r = Inr (items, False)"
  shows "fetchAllPaginated f init maxPages =
     (Inr (js_concat (concat (map fst ps)) items), map (page_params init) [1..int (length ps) + 1])"
proof -
  have "fetchAllPaginated f init maxPages =
        fetch_loop f init maxPages (concat (map fst ps)) (1 + int (length ps)) True
          (map (page_params init) [1..int (length ps)])"
    unfolding fetchAllPaginated_def
    using fetch_loop_pages [OF assms(1-3), of maxPages "[]" "[]"] assms(4) by simp
  also have "\<dots> = (Inr (js_concat (concat (map fst ps)) items),
        map (page_params init) [1..int (length ps)] @ [page_params init (1 + int (length ps))])"
    using assms(4,5,6) by (intro fetch_loop_final) (simp_all add: ac_simps)
  finally show ?thesis by (simp add: upto_snoc ac_simps)
qed

lemma pages_then_limit:
  assumes "serves_pages f init 1 ps" "list_all nonempty_page ps" "list_all next_truthy ps"
    and "int (length ps) = maxPages"
  shows "fetchAllPaginated f init maxPages =
     (Inr (concat (map fst ps)), map (page_params init) [1..maxPages])"
proof -
  have "fetchAllPaginated f init maxPages =
        fetch_loop f init maxPages (concat (map fst ps)) (1 + int (length ps)) True
          (map (page_params init) [1..int (length ps)])"
    unfolding fetchAllPaginated_def
    using fetch_loop_pages [OF assms(1-3), of maxPages "[]" "[]"] assms(4) by simp
  also have "\<dots> = (Inr (concat (map fst ps)), map (page_params init) [1..int (length ps)])"
    using assms(4) by (intro fetch_loop_stop) simp
  finally show ?thesis using assms(4) by simp
qed

lemma pages_then_last:
  assumes "serves_pages f init 1 ps" and "ps \<noteq> []"
    and "list_all nonempty_page ps" and "list_all next_truthy (butlast ps)"
    and "\<not> truthy (snd (last ps))" and "int (length ps) \<le> maxPages"
  shows "fetchAllPaginated f init maxPages =
     (Inr (concat (map fst ps)), map (page_params init) [1..int (length ps)])"
proof -
  define qs where "qs = butlast ps"
  obtain items nextUrl where l: "last ps = (items, nextUrl)"
    by (cases "last ps")
  have ps: "ps = qs @ [(items, nextUrl)]"
    using assms(2) l by (simp add: qs_def flip: l)
  have len: "int (length ps) = int (length qs) + 1"
    by (subst ps) simp
  from assms(1) have qs: "serves_pages f init 1 qs"
    and lst: "serves_pages f init (1 + int (length qs)) [(items, nextUrl)]"
    by (simp_all add: ps serves_pages_append)
  from lst obtain r where r: "f (page_params init (int (length qs) + 1)) = Inr r"
    and env: "envelope_of r = Some (items, nextUrl)"
    by (auto split: sum.splits simp: ac_simps)
  have ne: "list_all nonempty_page qs"
    using assms(3) by (simp add: ps)
  have tr: "list_all next_truthy qs"
    using assms(4) by (simp add: qs_def)
  have lt: "int (length qs) < maxPages"
    using assms(6) len by simp
  have rp: "read_page r = Inr (JArr items, False)"
    using read_page_envelope [OF env] assms(5) l by simp
  have "fetchAllPaginated f init maxPages =
     (Inr (js_concat (concat (map fst qs)) (JArr items)),
      map (page_params init) [1..int (length qs) + 1])"
    using qs ne tr lt r rp by (rule pages_then_final)
  moreover have "concat (map fst ps) = concat (map fst qs) @ items"
    by (subst ps) simp
  ultimately show ?thesis by (simp add: len)
qed

subsection \<open>The traversal always comes to an end with an array\<close>

lemma fetch_loop_total:
  "(\<forall>p e. f p = Inl e \<longrightarrow> \<not> nullish e) \<Longrightarrow>
   \<exists>items. fst (fetch_loop f init maxPages allItems currentPage hasMore calls) = Inr items"
proof (induction f init maxPages allItems currentPage hasMore calls rule: fetch_loop.induct)
  case (1 f init maxPages allItems currentPage hasMore calls)
  note safe = "1.prems"
  show ?case
  proof (cases "hasMore \<and> currentPage \<le> maxPages")
    case False
    then show ?thesis by (subst fetch_loop.simps) auto
  next
    case go: True
    show ?thesis
    proof (cases "f (page_params init currentPage)")
      case (Inl e)
      with safe have "\<not> nullish e" by blast
      with go Inl show ?thesis
        by (subst fetch_loop.simps) (simp add: pagination_catch_error)
    next
      case r: (Inr response)
      show ?thesis
      proof (cases "read_page response")
        case (Inl e)
        with go r show ?thesis
          by (subst fetch_loop.simps) (simp add: pagination_catch_error read_page_throws)
      next
        case (Inr page)
        obtain items hasMore' where page: "read_page response = Inr (items, hasMore')"
          using Inr by (cases page) simp
        show ?thesis
        proof (cases hasMore')
          case False
          with go r page show ?thesis by (subst fetch_loop.simps) simp
        next
          case more: True
          show ?thesis
          proof (cases "length_is_zero items")
            case (Inl e)
            with go r page more show ?thesis
              by (subst fetch_loop.simps) (simp add: pagination_catch_error length_is_zero_throws)
          next
            case (Inr noItems)
            show ?thesis
            proof (cases noItems)
              case True
              with go r page more Inr show ?thesis by (subst fetch_loop.simps) simp
            next
              case False
              have "\<exists>items'. fst (fetch_loop f init maxPages (js_concat allItems items)
                      (currentPage + 1) hasMore' (calls @ [page_params init currentPage])) = Inr items'"
                using go r page more Inr False safe by (intro "1.IH") simp_all
              with go r page more Inr False show ?thesis by (subst fetch_loop.simps) simp
            qed
          qed
        qed
      qed
    qed
  qed
qed

subsection \<open>Runaway endpoints and unrecognized responses\<close>

lemma runaway_pages:
  assumes "\<forall>params. \<exists>r items nextUrl.
      f params = Inr r \<and> envelope_of r = Some (items, nextUrl) \<and> items \<noteq> [] \<and> truthy nextUrl"
  shows "\<exists>ps. length ps = n \<and> serves_pages f init c ps \<and>
      list_all nonempty_page ps \<and> list_all next_truthy ps"
proof (induction n arbitrary: c)
  case 0
  show ?case by simp
next
  case (Suc n)
  from Suc.IH [of "c + 1"] obtain ps where ps: "length ps = n" "serves_pages f init (c + 1) ps"
    "list_all nonempty_page ps" "list_all next_truthy ps"
    by blast
  from assms obtain r items nextUrl where r: "f (page_params init c) = Inr r"
    "envelope_of r = Some (items, nextUrl)" "items \<noteq> []" "truthy nextUrl"
    by blast
  have "length ((items, nextUrl) # ps) = Suc n" using ps(1) by simp
  moreover have "serves_pages f init c ((items, nextUrl) # ps)" using r ps(2) by simp
  moreover have "list_all nonempty_page ((items, nextUrl) # ps)"
    using r(3) ps(3) by (simp add: nonempty_page_def)
  moreover have "list_all next_truthy ((items, nextUrl) # ps)"
    using r(4) ps(4) by (simp add: next_truthy_def)
  ultimately show ?case by blast
qed

lemma read_page_unrecognized:
  assumes "\<not> recognized r"
  shows "(\<exists>e. read_page r = Inl e \<and> single_item r = []) \<or>
         (\<exists>items. read_page r = Inr (items, False) \<and> js_concat allItems items = allItems @ single_item r)"
proof (cases "getProp r ''data''")
  case (Inl e)
  then show ?thesis by (simp add: read_page_def single_item_def)
next
  case data: (Inr data)
  show ?thesis
  proof (cases "truthy data")
    case False
    with data assms show ?thesis
      by (auto simp: read_page_def single_item_def recognized_def split: sum.splits)
  next
    case True
    then obtain results where res: "getProp data ''results'' = Inr results"
      by (cases data) simp_all
    with True data assms have na: "\<not> isArray data" "\<not> isArray results"
      by (simp_all add: recognized_def)
    from na(2) have "js_concat allItems results = allItems @ [results]"
      by (cases results) simp_all
    with True data res na show ?thesis
      by (simp add: read_page_def single_item_def)
  qed
qed

text \<open>
  The only responses after which the loop asks for another page: an envelope with a
  non-empty results array and a truthy next indicator.
\<close>

lemma read_page_continues:
  assumes "read_page r = Inr (items, True)" and "length_is_zero items = Inr False"
  shows "\<exists>xs nextUrl. envelope_of r = Some (xs, nextUrl) \<and> items = JArr xs \<and> xs \<noteq> [] \<and>
     truthy nextUrl"
proof -
  from assms(1) obtain d where d: "getProp r ''data'' = Inr d" "truthy d" "\<not> isArray d"
    by (auto simp: read_page_def split: sum.splits if_splits)
  with assms(1) obtain nextUrl where n: "getProp d ''results'' = Inr items" "isArray items"
    "getProp d ''next'' = Inr nextUrl" "truthy nextUrl"
    by (auto simp: read_page_def split: sum.splits if_splits)
  from n(2) obtain xs where xs: "items = JArr xs" by (cases items) simp_all
  from d(2,3) n(1) xs obtain kvs where kvs: "d = JObj kvs" by (cases d) (simp_all split: if_splits)
  from assms(2) xs have "xs \<noteq> []" by (simp add: length_is_zero_def)
  moreover from kvs n(1,3,4) xs d(1) have "envelope_of r = Some (xs, nextUrl)"
    by (auto simp: envelope_of_def split: option.splits)
  ultimately show ?thesis using xs n(4) by blast
qed

section \<open>Properties of the version-guarded updates\<close>

subsection \<open>The requests of each update\<close>

lemmas io_defs = returnE_def throwE_def liftE_def bindE_def tryCatch_def acquire_client_def
  acquire_token_def client_get_def client_patch_def client_post_def log_and_throw_def

lemma updateIssue_log:
  assumes "updateIssue t k issueId updateData (w, []) = (res, (w', log))"
    and "Patch url body out \<in> set log"
  shows "\<exists>response d version. log = [Get url (Inr response), Patch url body out] \<and>
     url = item_url (ISSUES k) issueId \<and>
     getProp response ''data'' = Inr d \<and> getProp d ''version'' = Inr version \<and>
     body = JObj (AList.update ''version'' version updateData)"
  using assms
  by (auto simp: updateIssue_def getIssue_def io_defs split: prod.splits sum.splits)

lemma updateEpic_log:
  assumes "updateEpic t k epicId updateData (w, []) = (res, (w', log))"
    and "Patch url body out \<in> set log"
  shows "\<exists>response d version. log = [Get url (Inr response), Patch url body out] \<and>
     url = item_url (EPICS k) epicId \<and>
     getProp response ''data'' = Inr d \<and> getProp d ''version'' = Inr version \<and>
     body = JObj (AList.update ''version'' version updateData)"
  using assms
  by (auto simp: updateEpic_def getEpic_def io_defs split: prod.splits sum.splits)

lemma updateWikiPage_log:
  assumes "updateWikiPage t k wikiPageId updateData (w, []) = (res, (w', log))"
    and "Patch url body out \<in> set log"
  shows "\<exists>response d version. log = [Get url (Inr response), Patch url body out] \<and>
     url = item_url (WIKI k) wikiPageId \<and>
     getProp response ''data'' = Inr d \<and> getProp d ''version'' = Inr version \<and>
     body = JObj (AList.update ''version'' version updateData)"
  using assms
  by (auto simp: updateWikiPage_def data_version_def io_defs split: prod.splits sum.splits)







subsection \<open>The default version of \<open>getItemVersion\<close>\<close>




section \<open>Properties of the attachment pipeline\<close>

subsection \<open>Stripping the data-URI header\<close>






subsection \<open>Computations only append to the log\<close>

lemma appendsD: "appends m \<Longrightarrow> \<exists>rest. snd (snd (m (w, log))) = log @ rest"
  by (simp add: appends_def)

lemma appends_returnE: "appends (returnE v)" by (simp add: appends_def returnE_def)
lemma appends_throwE: "appends (throwE e)" by (simp add: appends_def throwE_def)
lemma appends_liftE: "appends (liftE r)" by (simp add: appends_def liftE_def)

lemma appends_bindE:
  assumes "appends m" and "\<And>v. appends (f v)"
  shows "appends (bindE m f)"
  unfolding appends_def
proof (intro allI)
  fix w log
  obtain r w1 log1 where m: "m (w, log) = (r, (w1, log1))"
    by (metis prod.exhaust)
  from appendsD [OF assms(1), of w log] m obtain rest1 where l1: "log1 = log @ rest1"
    by auto
  show "\<exists>rest. snd (snd (bindE m f (w, log))) = log @ rest"
  proof (cases r)
    case (Inl e)
    with m l1 show ?thesis by (simp add: bindE_def)
  next
    case (Inr v)
    from appendsD [OF assms(2), of v w1 log1] obtain rest2 where
      "snd (snd (f v (w1, log1))) = log1 @ rest2" by auto
    with Inr m l1 show ?thesis by (simp add: bindE_def)
  qed
qed

lemma appends_tryCatch:
  assumes "appends m" and "\<And>e. appends (h e)"
  shows "appends (tryCatch m h)"
  unfolding appends_def
proof (intro allI)
  fix w log
  obtain r w1 log1 where m: "m (w, log) = (r, (w1, log1))"
    by (metis prod.exhaust)
  from appendsD [OF assms(1), of w log] m obtain rest1 where l1: "log1 = log @ rest1"
    by auto
  show "\<exists>rest. snd (snd (tryCatch m h (w, log))) = log @ rest"
  proof (cases r)
    case (Inr v)
    with m l1 show ?thesis by (simp add: tryCatch_def)
  next
    case (Inl e)
    from appendsD [OF assms(2), of e w1 log1] obtain rest2 where
      "snd (snd (h e (w1, log1))) = log1 @ rest2" by auto
    with Inl m l1 show ?thesis by (simp add: tryCatch_def)
  qed
qed

lemma appends_if: "appends a \<Longrightarrow> appends b \<Longrightarrow> appends (if c then a else b)"
  by simp

lemma appends_acquire_client: "appends (acquire_client t)"
  by (simp add: appends_def acquire_client_def split: prod.splits)

lemma appends_acquire_token: "appends (acquire_token t)"
  by (simp add: appends_def acquire_token_def split: prod.splits)

lemma appends_client_get: "appends (client_get t url)"
  by (simp add: appends_def client_get_def split: prod.splits)

lemma appends_client_post: "appends (client_post t url form)"
  by (simp add: appends_def client_post_def split: prod.splits)

lemmas appends_intros = appends_returnE appends_throwE appends_liftE appends_bindE
  appends_tryCatch appends_if appends_acquire_client appends_acquire_token appends_client_get
  appends_client_post

lemma appends_uploadAttachment:
  "appends (uploadAttachment t k rt itemType itemId fileData fileName mimeType description)"
  unfolding uploadAttachment_def uploadAttachment_catch_def project_field_def getItemData_def
  by (intro appends_intros)

subsection \<open>The probing loop\<close>

lemma probe_run:
  "probe rt paths (w, log) =
     (Inr (find (\<lambda>p. existsSync rt p w) paths),
      (w, log @ map (\<lambda>p. Exists p False) (takeWhile (\<lambda>p. \<not> existsSync rt p w) paths)
            @ (case find (\<lambda>p. existsSync rt p w) paths of None \<Rightarrow> [] | Some p \<Rightarrow> [Exists p True])))"
  by (induction paths arbitrary: log) (simp_all add: returnE_def bindE_def exists_sync_def)

lemma snd_tryCatch:
  assumes "\<And>e s'. snd (h e s') = s'"
  shows "snd (tryCatch m h s) = snd (m s)"
proof -
  obtain r s' where "m s = (r, s')" by (metis prod.exhaust)
  then show ?thesis using assms [of _ s'] by (cases r) (simp_all add: tryCatch_def)
qed

lemma uploadAttachmentFromPath_log:
  assumes "filePath \<noteq> []" and "\<not> isAbsolute rt filePath"
  shows "\<exists>rest. snd (snd (uploadAttachmentFromPath t k rt itemType itemId (JStr filePath)
                description (w, []))) =
     map (\<lambda>p. Exists p False) (takeWhile (\<lambda>p. \<not> existsSync rt p w) (possiblePaths rt filePath)) @
     (case find (\<lambda>p. existsSync rt p w) (possiblePaths rt filePath) of
        None \<Rightarrow> []
      | Some p \<Rightarrow> [Exists p True, ReadFile p] @ rest)"
proof -
  let ?paths = "possiblePaths rt filePath"
  let ?probes = "map (\<lambda>p. Exists p False) (takeWhile (\<lambda>p. \<not> existsSync rt p w) ?paths)"
  let ?h = "\<lambda>error. bindE (liftE (getProp error ''message'')) (\<lambda>m.
          throwE (newError (''Failed to upload attachment from path: '' @ js_toString m)))"
  have h: "\<And>e s'. snd (?h e s') = s'"
    by (simp add: bindE_def liftE_def throwE_def split: sum.splits)
  show ?thesis
  proof (cases "find (\<lambda>p. existsSync rt p w) ?paths")
    case None
    with assms show ?thesis
      unfolding uploadAttachmentFromPath_def
      by (subst snd_tryCatch [OF h]) (simp add: locateFile_def bindE_def probe_run throwE_def)
  next
    case (Some p)
    show ?thesis
    proof (cases "readFileSync rt p w")
      case (Inl e)
      with Some assms show ?thesis
        unfolding uploadAttachmentFromPath_def
        by (subst snd_tryCatch [OF h])
          (simp add: locateFile_def bindE_def probe_run read_file_def)
    next
      case (Inr fileBuffer)
      from appendsD [OF appends_uploadAttachment,
          of t k rt itemType itemId "JStr (toBase64 rt fileBuffer)" "JStr (basename rt p)"
             "JStr (detectMimeType (basename rt p))" description w
             "?probes @ [Exists p True, ReadFile p]"]
      obtain rest where "snd (snd (uploadAttachment t k rt itemType itemId
          (JStr (toBase64 rt fileBuffer)) (JStr (basename rt p))
          (JStr (detectMimeType (basename rt p))) description
          (w, ?probes @ [Exists p True, ReadFile p]))) = (?probes @ [Exists p True, ReadFile p]) @ rest"
        by blast
      with Inr Some assms show ?thesis
        unfolding uploadAttachmentFromPath_def
        by (subst snd_tryCatch [OF h])
          (simp add: locateFile_def bindE_def probe_run read_file_def)
    qed
  qed
qed

subsection \<open>Validation errors of \<open>uploadAttachment\<close>\<close>



lemma response_status_newError: "response_status (newError msg) = Inr JUndefined"
  by (simp add: response_status_def newError_def optProp_def)

lemma uploadAttachment_catch_plain:
  assumes "\<not> js_includes msg ''Invalid base64''" and "\<not> js_includes msg ''cb is not a function''"
  shows "uploadAttachment_catch (newError msg) s =
     (Inl (newError (''Failed to upload attachment to Taiga: '' @ msg)), s)"
  using assms
  by (simp add: uploadAttachment_catch_def message_includes_def bindE_def liftE_def throwE_def
      response_status_def optProp_def newError_def)

lemma invalid_file_data_message:
  "\<not> js_includes ''Invalid file data: fileData must be a base64 encoded string'' ''Invalid base64''"
  "\<not> js_includes ''Invalid file data: fileData must be a base64 encoded string'' ''cb is not a function''"
  by code_simp+

lemma invalid_file_name_message:
  "\<not> js_includes ''Invalid file name: fileName is required'' ''Invalid base64''"
  "\<not> js_includes ''Invalid file name: fileName is required'' ''cb is not a function''"
  by code_simp+

lemma upload_invalid_file_data:
  assumes "createAuthenticatedClient t w = (Inr (), w1)" and "getAuthToken t w1 = (Inr token, w2)"
    and "\<not> truthy fileData \<or> \<not> isString fileData"
  shows "uploadAttachment t k rt itemType itemId fileData fileName mimeType description (w, log) =
     (Inl (newError (''Failed to upload attachment to Taiga: '' @
        ''Invalid file data: fileData must be a base64 encoded string'')), (w2, log))"
  using assms
  by (simp add: uploadAttachment_def tryCatch_def bindE_def acquire_client_def acquire_token_def
      throwE_def uploadAttachment_catch_plain [OF invalid_file_data_message])

lemma upload_invalid_file_name:
  assumes "createAuthenticatedClient t w = (Inr (), w1)" and "getAuthToken t w1 = (Inr token, w2)"
    and "truthy fileData" "isString fileData" and "\<not> truthy fileName \<or> \<not> isString fileName"
  shows "uploadAttachment t k rt itemType itemId fileData fileName mimeType description (w, log) =
     (Inl (newError (''Failed to upload attachment to Taiga: '' @
        ''Invalid file name: fileName is required'')), (w2, log))"
  using assms
  by (simp add: uploadAttachment_def tryCatch_def bindE_def acquire_client_def acquire_token_def
      throwE_def uploadAttachment_catch_plain [OF invalid_file_name_message])

subsection \<open>The form that \<open>uploadAttachment\<close> posts\<close>



section \<open>Updates that go through\<close>

subsection \<open>From a successful read to the write\<close>

lemma snd_log_and_throw: "snd (log_and_throw e msg s) = s"
  by (simp add: log_and_throw_def bindE_def liftE_def throwE_def split: sum.splits)

lemma bindE_Inr: "m s = (Inr v, s') \<Longrightarrow> bindE m f s = f v s'"
  by (simp add: bindE_def)

lemma bindE_liftE: "r = Inr v \<Longrightarrow> bindE (liftE r) f s = f v s"
  by (simp add: bindE_def liftE_def)

lemma bindE_acquire_client:
  "createAuthenticatedClient t w = (Inr (), w1) \<Longrightarrow>
   bindE (acquire_client t) f (w, log) = f () (w1, log)"
  by (simp add: bindE_def acquire_client_def)

lemma bindE_client_get:
  "http_get t url w = (Inr response, w') \<Longrightarrow>
   bindE (client_get t url) f (w, log) = f response (w', log @ [Get url (Inr response)])"
  by (simp add: bindE_def client_get_def)

lemma snd_patch_then_data:
  assumes "http_patch t url body w = (out, w')"
  shows "snd (bindE (client_patch t url body) (\<lambda>response. liftE (getProp response ''data'')) (w, log))
     = (w', log @ [Patch url body out])"
  using assms by (cases out) (simp_all add: bindE_def client_patch_def liftE_def)

lemma getIssue_reads:
  assumes "createAuthenticatedClient t w1 = (Inr (), w2)"
    and "http_get t (item_url (ISSUES k) issueId) w2 = (Inr response, w3)"
    and "getProp response ''data'' = Inr d"
  shows "getIssue t k issueId (w1, log) =
     (Inr d, (w3, log @ [Get (item_url (ISSUES k) issueId) (Inr response)]))"
  using assms
  by (simp add: getIssue_def tryCatch_def bindE_def acquire_client_def client_get_def liftE_def)

lemma getEpic_reads:
  assumes "createAuthenticatedClient t w1 = (Inr (), w2)"
    and "http_get t (item_url (EPICS k) epicId) w2 = (Inr response, w3)"
    and "getProp response ''data'' = Inr d"
  shows "getEpic t k epicId (w1, log) =
     (Inr d, (w3, log @ [Get (item_url (EPICS k) epicId) (Inr response)]))"
  using assms
  by (simp add: getEpic_def tryCatch_def bindE_def acquire_client_def client_get_def liftE_def)

lemma data_version_reads:
  "getProp response ''data'' = Inr d \<Longrightarrow> getProp d ''version'' = Inr v \<Longrightarrow>
   data_version response = Inr v"
  by (simp add: data_version_def)

lemma updateIssue_proceeds:
  assumes "createAuthenticatedClient t w = (Inr (), w1)"
    and "createAuthenticatedClient t w1 = (Inr (), w2)"
    and "http_get t (item_url (ISSUES k) issueId) w2 = (Inr response, w3)"
    and "getProp response ''data'' = Inr d" and "getProp d ''version'' = Inr v"
    and "http_patch t (item_url (ISSUES k) issueId)
           (JObj (AList.update ''version'' v updateData)) w3 = (out, w4)"
  shows "snd (updateIssue t k issueId updateData (w, [])) =
     (w4, [Get (item_url (ISSUES k) issueId) (Inr response),
           Patch (item_url (ISSUES k) issueId) (JObj (AList.update ''version'' v updateData)) out])"
  unfolding updateIssue_def
  by (simp only: snd_tryCatch [OF snd_log_and_throw] bindE_acquire_client [OF assms(1)]
      bindE_Inr [where m = "getIssue t k issueId", OF getIssue_reads [OF assms(2-4)]] bindE_liftE [OF assms(5)]
      snd_patch_then_data [OF assms(6)] append_Nil append_Cons)

lemma updateEpic_proceeds:
  assumes "createAuthenticatedClient t w = (Inr (), w1)"
    and "createAuthenticatedClient t w1 = (Inr (), w2)"
    and "http_get t (item_url (EPICS k) epicId) w2 = (Inr response, w3)"
    and "getProp response ''data'' = Inr d" and "getProp d ''version'' = Inr v"
    and "http_patch t (item_url (EPICS k) epicId)
           (JObj (AList.update ''version'' v updateData)) w3 = (out, w4)"
  shows "snd (updateEpic t k epicId updateData (w, [])) =
     (w4, [Get (item_url (EPICS k) epicId) (Inr response),
           Patch (item_url (EPICS k) epicId) (JObj (AList.update ''version'' v updateData)) out])"
  unfolding updateEpic_def
  by (simp only: snd_tryCatch [OF snd_log_and_throw] bindE_acquire_client [OF assms(1)]
      bindE_Inr [where m = "getEpic t k epicId", OF getEpic_reads [OF assms(2-4)]] bindE_liftE [OF assms(5)]
      snd_patch_then_data [OF assms(6)] append_Nil append_Cons)

lemma updateWikiPage_proceeds:
  assumes "createAuthenticatedClient t w = (Inr (), w1)"
    and "http_get t (item_url (WIKI k) wikiPageId) w1 = (Inr response, w2)"
    and "getProp response ''data'' = Inr d" and "getProp d ''version'' = Inr v"
    and "http_patch t (item_url (WIKI k) wikiPageId)
           (JObj (AList.update ''version'' v updateData)) w2 = (out, w3)"
  shows "snd (updateWikiPage t k wikiPageId updateData (w, [])) =
     (w3, [Get (item_url (WIKI k) wikiPageId) (Inr response),
           Patch (item_url (WIKI k) wikiPageId) (JObj (AList.update ''version'' v updateData)) out])"
  unfolding updateWikiPage_def
  by (simp only: snd_tryCatch [OF snd_log_and_throw] bindE_acquire_client [OF assms(1)]
      bindE_client_get [OF assms(2)] bindE_liftE [OF data_version_reads [OF assms(3,4)]]
      snd_patch_then_data [OF assms(5)] append_Nil append_Cons)



subsection \<open>Updates against a server that authenticates and serves the resource\<close>


lemma run_from_snd: "snd x = s' \<Longrightarrow> \<exists>res. x = (res, s')"
  by (metis prod.collapse)

lemma updateIssue_sends:
  assumes "authenticates t" and "serves_version t (item_url (ISSUES k) issueId) v"
  shows "\<exists>res w' response d out.
     updateIssue t k issueId updateData (w, []) =
       (res, (w', [Get (item_url (ISSUES k) issueId) (Inr response),
                   Patch (item_url (ISSUES k) issueId)
                     (JObj (AList.update ''version'' v updateData)) out])) \<and>
     getProp response ''data'' = Inr d \<and> getProp d ''version'' = Inr v"
proof -
  let ?url = "item_url (ISSUES k) issueId"
  from assms(1) obtain w1 where a1: "createAuthenticatedClient t w = (Inr (), w1)"
    unfolding authenticates_def by blast
  from assms(1) obtain w2 where a2: "createAuthenticatedClient t w1 = (Inr (), w2)"
    unfolding authenticates_def by blast
  from assms(2) obtain w3 response d where g: "http_get t ?url w2 = (Inr response, w3)"
    and d: "getProp response ''data'' = Inr d" and v: "getProp d ''version'' = Inr v"
    unfolding serves_version_def by blast
  obtain out w4 where p: "http_patch t ?url (JObj (AList.update ''version'' v updateData)) w3 = (out, w4)"
    by (metis prod.exhaust)
  from run_from_snd [OF updateIssue_proceeds [OF a1 a2 g d v p]] d v show ?thesis by blast
qed

lemma updateEpic_sends:
  assumes "authenticates t" and "serves_version t (item_url (EPICS k) epicId) v"
  shows "\<exists>res w' response d out.
     updateEpic t k epicId updateData (w, []) =
       (res, (w', [Get (item_url (EPICS k) epicId) (Inr response),
                   Patch (item_url (EPICS k) epicId)
                     (JObj (AList.update ''version'' v updateData)) out])) \<and>
     getProp response ''data'' = Inr d \<and> getProp d ''version'' = Inr v"
proof -
  let ?url = "item_url (EPICS k) epicId"
  from assms(1) obtain w1 where a1: "createAuthenticatedClient t w = (Inr (), w1)"
    unfolding authenticates_def by blast
  from assms(1) obtain w2 where a2: "createAuthenticatedClient t w1 = (Inr (), w2)"
    unfolding authenticates_def by blast
  from assms(2) obtain w3 response d where g: "http_get t ?url w2 = (Inr response, w3)"
    and d: "getProp response ''data'' = Inr d" and v: "getProp d ''version'' = Inr v"
    unfolding serves_version_def by blast
  obtain out w4 where p: "http_patch t ?url (JObj (AList.update ''version'' v updateData)) w3 = (out, w4)"
    by (metis prod.exhaust)
  from run_from_snd [OF updateEpic_proceeds [OF a1 a2 g d v p]] d v show ?thesis by blast
qed

lemma updateWikiPage_sends:
  assumes "authenticates t" and "serves_version t (item_url (WIKI k) wikiPageId) v"
  shows "\<exists>res w' response d out.
     updateWikiPage t k wikiPageId updateData (w, []) =
       (res, (w', [Get (item_url (WIKI k) wikiPageId) (Inr response),
                   Patch (item_url (WIKI k) wikiPageId)
                     (JObj (AList.update ''version'' v updateData)) out])) \<and>
     getProp response ''data'' = Inr d \<and> getProp d ''version'' = Inr v"
proof -
  let ?url = "item_url (WIKI k) wikiPageId"
  from assms(1) obtain w1 where a1: "createAuthenticatedClient t w = (Inr (), w1)"
    unfolding authenticates_def by blast
  from assms(2) obtain w2 response d where g: "http_get t ?url w1 = (Inr response, w2)"
    and d: "getProp response ''data'' = Inr d" and v: "getProp d ''version'' = Inr v"
    unfolding serves_version_def by blast
  obtain out w3 where p: "http_patch t ?url (JObj (AList.update ''version'' v updateData)) w2 = (out, w3)"
    by (metis prod.exhaust)
  from run_from_snd [OF updateWikiPage_proceeds [OF a1 g d v p]] d v show ?thesis by blast
qed





section \<open>Claims on the pagination engine\<close>

text \<open>
  C2, as stated: the page-fetching function returns \<open>k \<ge> 1\<close> envelope responses, each
  with a non-empty results array, a non-null next indicator on every page but the last and
  null on the last, and \<open>maxPages \<ge> k\<close>; then all items come back in order after
  exactly \<open>k\<close> calls. The engine tests the indicator with \<open>!!nextUrl\<close>, so a next
  indicator that is not null but falsy ends the traversal: with the empty string as the
  first page's indicator, every hypothesis holds and the engine returns the first page
  alone after one call.
\<close>

theorem all_pages_nonnull_next_counterexample:
  "serves_pages (mockFetchFunction (envelopes blank_next_pages)) [] 1 blank_next_pages
   \<and> blank_next_pages \<noteq> []
   \<and> list_all nonempty_page blank_next_pages
   \<and> list_all next_nonnull (butlast blank_next_pages)
   \<and> snd (last blank_next_pages) = JNull
   \<and> int (length blank_next_pages) \<le> 100
   \<and> fetchAllPaginated (mockFetchFunction (envelopes blank_next_pages)) [] 100
       = (Inr [item 1], [page_params [] 1])
   \<and> fetchAllPaginated (mockFetchFunction (envelopes blank_next_pages)) [] 100
       \<noteq> (Inr (concat (map fst blank_next_pages)),
          map (page_params []) [1..int (length blank_next_pages)])"
  by code_simp

text \<open>
  C2, amended: when the page-fetching function returns \<open>k \<ge> 1\<close> envelope responses
  \<open>ps\<close>, each with a non-empty results array, a truthy next indicator on every page but
  the last and null on the last, \<open>fetchAllPaginated\<close> with \<open>maxPages \<ge> k\<close> returns the
  concatenation of the pages' items in page order and calls the function exactly \<open>k\<close>
  times, with the page numbers 1 to \<open>k\<close>.
\<close>

theorem all_pages_in_order:
  assumes "serves_pages fetchFunction initialParams 1 ps" and "ps \<noteq> []"
    and "list_all nonempty_page ps" and "list_all next_truthy (butlast ps)"
    and "snd (last ps) = JNull" and "int (length ps) \<le> maxPages"
  shows "fetchAllPaginated fetchFunction initialParams maxPages =
     (Inr (concat (map fst ps)), map (page_params initialParams) [1..int (length ps)])"
  using assms by (intro pages_then_last) simp_all

theorem all_pages_in_order_witness:
  "serves_pages (mockFetchFunction (envelopes test_pages)) [] 1 test_pages
   \<and> test_pages \<noteq> []
   \<and> list_all nonempty_page test_pages
   \<and> list_all next_truthy (butlast test_pages)
   \<and> snd (last test_pages) = JNull
   \<and> int (length test_pages) \<le> 100
   \<and> fetchAllPaginated (mockFetchFunction (envelopes test_pages)) [] 100
       = (Inr [item 1, item 2, item 3, item 4, item 5, item 6, item 7],
          [page_params [] 1, page_params [] 2, page_params [] 3])"
proof -
  have h1: "serves_pages (mockFetchFunction (envelopes test_pages)) [] 1 test_pages"
    by code_simp
  have h2: "test_pages \<noteq> []" by (simp add: test_pages_def)
  have h3: "list_all nonempty_page test_pages" by (simp add: test_pages_def nonempty_page_def)
  have h4: "list_all next_truthy (butlast test_pages)"
    by (simp add: test_pages_def next_truthy_def)
  have h5: "snd (last test_pages) = JNull" by (simp add: test_pages_def)
  have h6: "int (length test_pages) \<le> 100" by (simp add: test_pages_def)
  have "concat (map fst test_pages) = [item 1, item 2, item 3, item 4, item 5, item 6, item 7]"
    by (simp add: test_pages_def)
  moreover have "map (page_params []) [1..int (length test_pages)] =
      [page_params [] 1, page_params [] 2, page_params [] 3]"
    by (simp add: test_pages_def upto_rec1)
  ultimately show ?thesis
    using all_pages_in_order [OF h1 h2 h3 h4 h5 h6] h1 h2 h3 h4 h5 h6 by simp
qed

text \<open>
  C5: the page-fetching function succeeds on the calls 1 to \<open>j - 1\<close> and throws an error
  on call \<open>j\<close>. For call \<open>j\<close> to be made, the earlier calls returned envelopes \<open>ps\<close>
  with non-empty results and a truthy next indicator (the only responses after which the
  loop goes on), and \<open>j = length ps + 1\<close> is within \<open>maxPages\<close>. The thrown value is an
  error: not undefined and not null. Then \<open>fetchAllPaginated\<close> returns the items of the
  calls 1 to \<open>j - 1\<close>, in order, and does not throw. The theorem also covers \<open>j = 1\<close>,
  with \<open>ps\<close> empty.
\<close>

theorem partial_result_on_error:
  assumes "serves_pages fetchFunction initialParams 1 ps"
    and "list_all nonempty_page ps" and "list_all next_truthy ps"
    and "int (length ps) < maxPages"
    and "fetchFunction (page_params initialParams (int (length ps) + 1)) = Inl error"
    and "\<not> nullish error"
  shows "fetchAllPaginated fetchFunction initialParams maxPages =
     (Inr (concat (map fst ps)), map (page_params initialParams) [1..int (length ps) + 1])"
  using pages_then_throw [OF assms(1-5)] assms(6) by (simp add: pagination_catch_error)


theorem partial_result_on_error_witness:
  "serves_pages (flakyFetchFunction (envelopes two_pages) (newError ''socket hang up'')) [] 1 two_pages
   \<and> list_all nonempty_page two_pages
   \<and> list_all next_truthy two_pages
   \<and> int (length two_pages) < 100
   \<and> flakyFetchFunction (envelopes two_pages) (newError ''socket hang up'')
        (page_params [] (int (length two_pages) + 1)) = Inl (newError ''socket hang up'')
   \<and> \<not> nullish (newError ''socket hang up'')
   \<and> fetchAllPaginated (flakyFetchFunction (envelopes two_pages) (newError ''socket hang up'')) [] 100
       = (Inr [item 1, item 2, item 3, item 4, item 5, item 6],
          [page_params [] 1, page_params [] 2, page_params [] 3])"
proof -
  let ?f = "flakyFetchFunction (envelopes two_pages) (newError ''socket hang up'')"
  have h1: "serves_pages ?f [] 1 two_pages" by code_simp
  have h2: "list_all nonempty_page two_pages" by (simp add: two_pages_def nonempty_page_def)
  have h3: "list_all next_truthy two_pages" by (simp add: two_pages_def next_truthy_def)
  have h4: "int (length two_pages) < 100" by (simp add: two_pages_def)
  have h5: "?f (page_params [] (int (length two_pages) + 1)) = Inl (newError ''socket hang up'')"
    by code_simp
  have h6: "\<not> nullish (newError ''socket hang up'')" by (simp add: newError_def)
  have "concat (map fst two_pages) = [item 1, item 2, item 3, item 4, item 5, item 6]"
    by (simp add: two_pages_def)
  moreover have "map (page_params []) [1..int (length two_pages) + 1] =
      [page_params [] 1, page_params [] 2, page_params [] 3]"
    by (simp add: two_pages_def upto_rec1)
  ultimately show ?thesis
    using partial_result_on_error [OF h1 h2 h3 h4 h5 h6] h1 h2 h3 h4 h5 h6 by simp
qed

text \<open>
  C6, as stated: on every call the function returns an envelope with a non-empty results
  array and a non-null next indicator; then \<open>fetchAllPaginated\<close> with a maximum of \<open>M\<close>
  pages makes exactly \<open>M\<close> calls. With \<open>false\<close> as the next indicator of every response
  and a maximum of 5 pages, the engine stops after the first call.
\<close>

theorem runaway_nonnull_next_counterexample:
  "envelope_of false_next_response = Some ([item 1], JBool False)
   \<and> [item 1] \<noteq> []
   \<and> JBool False \<noteq> JNull
   \<and> fetchAllPaginated (runawayFetchFunction false_next_response) [] 5
       = (Inr [item 1], [page_params [] 1])
   \<and> length (snd (fetchAllPaginated (runawayFetchFunction false_next_response) [] 5)) \<noteq> 5"
  by code_simp

text \<open>
  C6, amended: when on every call the function returns an envelope with a non-empty
  results array and a truthy next indicator, \<open>fetchAllPaginated\<close> with a maximum of
  \<open>M \<ge> 0\<close> pages calls the function exactly \<open>M\<close> times, with the page numbers 1 to
  \<open>M\<close>, and returns the concatenation of the items of those \<open>M\<close> pages \<open>ps\<close>.
\<close>

theorem runaway_bounded:
  assumes "0 \<le> maxPages"
    and "\<forall>params. \<exists>r items nextUrl. fetchFunction params = Inr r \<and>
           envelope_of r = Some (items, nextUrl) \<and> items \<noteq> [] \<and> truthy nextUrl"
  shows "\<exists>ps. int (length ps) = maxPages \<and> serves_pages fetchFunction initialParams 1 ps \<and>
     fetchAllPaginated fetchFunction initialParams maxPages =
       (Inr (concat (map fst ps)), map (page_params initialParams) [1..maxPages])"
proof -
  from runaway_pages [OF assms(2), of "nat maxPages" initialParams 1]
  obtain ps where ps: "length ps = nat maxPages" "serves_pages fetchFunction initialParams 1 ps"
    "list_all nonempty_page ps" "list_all next_truthy ps"
    by blast
  from ps(1) assms(1) have len: "int (length ps) = maxPages" by simp
  from pages_then_limit [OF ps(2-4) len] len ps(2) show ?thesis by blast
qed

theorem runaway_bounded_witness:
  "(0::int) \<le> 5
   \<and> (\<forall>params. \<exists>r items nextUrl. runawayFetchFunction runaway_response params = Inr r \<and>
           envelope_of r = Some (items, nextUrl) \<and> items \<noteq> [] \<and> truthy nextUrl)
   \<and> (\<exists>ps. int (length ps) = 5 \<and>
           serves_pages (runawayFetchFunction runaway_response) [] 1 ps \<and>
           fetchAllPaginated (runawayFetchFunction runaway_response) [] 5 =
             (Inr (concat (map fst ps)), map (page_params []) [1..5]))
   \<and> fetchAllPaginated (runawayFetchFunction runaway_response) [] 5
       = (Inr [item 1, item 1, item 1, item 1, item 1],
          [page_params [] 1, page_params [] 2, page_params [] 3, page_params [] 4,
           page_params [] 5])"
proof -
  have h1: "(0::int) \<le> 5" by simp
  have h2: "\<forall>params. \<exists>r items nextUrl. runawayFetchFunction runaway_response params = Inr r \<and>
           envelope_of r = Some (items, nextUrl) \<and> items \<noteq> [] \<and> truthy nextUrl"
    by (simp add: runawayFetchFunction_def runaway_response_def envelope_of_def mk_envelope_def)
  have h3: "fetchAllPaginated (runawayFetchFunction runaway_response) [] 5
       = (Inr [item 1, item 1, item 1, item 1, item 1],
          [page_params [] 1, page_params [] 2, page_params [] 3, page_params [] 4,
           page_params [] 5])"
    by code_simp
  from runaway_bounded [OF h1 h2, of "[]"] h1 h2 h3 show ?thesis by blast
qed

text \<open>
  C9, as stated: for every page-fetching function \<open>fetchAllPaginated\<close> returns an array
  and never throws; a throw on call 1 gives the empty array; an unrecognized response
  shape contributes no items and ends the traversal. The last branch of the engine takes
  \<open>response.data.results || []\<close> as the items ("treat as single item or empty"), and
  \<open>concat\<close> appends a value that is not an array as one item: a response whose \<open>data\<close>
  is not an array and has no results array, but an object as \<open>results\<close>, contributes
  that object.
\<close>

theorem unrecognized_response_counterexample:
  "getProp odd_response ''data'' = Inr (JObj [(''results'', item 9)])
   \<and> \<not> isArray (JObj [(''results'', item 9)])
   \<and> getProp (JObj [(''results'', item 9)]) ''results'' = Inr (item 9)
   \<and> \<not> isArray (item 9)
   \<and> \<not> recognized odd_response
   \<and> fetchAllPaginated (mockFetchFunction [odd_response]) [] 100
       = (Inr [item 9], [page_params [] 1])
   \<and> fetchAllPaginated (mockFetchFunction [odd_response]) [] 100
       \<noteq> (Inr [], [page_params [] 1])"
  by code_simp

text \<open>
  C9, amended. (1) For every page-fetching function whose thrown values are neither
  undefined nor null, and for responses of every shape, \<open>fetchAllPaginated\<close> returns an
  array and does not throw. (2) A throw of such a value on call 1 gives the empty array.
  (3) After any run of full pages \<open>ps\<close>, an unrecognized response ends the traversal; it
  contributes no items, except that a truthy \<open>data\<close> whose \<open>results\<close> is truthy and not
  an array contributes that value as a single item (\<open>single_item\<close>).
\<close>

theorem returns_array:
  "((\<forall>params e. fetchFunction params = Inl e \<longrightarrow> \<not> nullish e) \<longrightarrow>
      (\<exists>allItems. fst (fetchAllPaginated fetchFunction initialParams maxPages) = Inr allItems))
   \<and> (1 \<le> maxPages \<and> fetchFunction (page_params initialParams 1) = Inl error \<and> \<not> nullish error \<longrightarrow>
      fetchAllPaginated fetchFunction initialParams maxPages = (Inr [], [page_params initialParams 1]))
   \<and> (serves_pages fetchFunction initialParams 1 ps \<and> list_all nonempty_page ps \<and>
      list_all next_truthy ps \<and> int (length ps) < maxPages \<and>
      fetchFunction (page_params initialParams (int (length ps) + 1)) = Inr response \<and>
      \<not> recognized response \<longrightarrow>
      fetchAllPaginated fetchFunction initialParams maxPages =
        (Inr (concat (map fst ps) @ single_item response),
         map (page_params initialParams) [1..int (length ps) + 1]))"
proof (intro conjI impI)
  assume "\<forall>params e. fetchFunction params = Inl e \<longrightarrow> \<not> nullish e"
  then show "\<exists>allItems. fst (fetchAllPaginated fetchFunction initialParams maxPages) = Inr allItems"
    unfolding fetchAllPaginated_def by (rule fetch_loop_total)
next
  assume a: "1 \<le> maxPages \<and> fetchFunction (page_params initialParams 1) = Inl error \<and> \<not> nullish error"
  then have "fetchAllPaginated fetchFunction initialParams maxPages =
      (pagination_catch error [], [] @ [page_params initialParams 1])"
    unfolding fetchAllPaginated_def by (intro fetch_loop_throw) simp_all
  with a show "fetchAllPaginated fetchFunction initialParams maxPages =
      (Inr [], [page_params initialParams 1])"
    by (simp add: pagination_catch_error)
next
  assume a: "serves_pages fetchFunction initialParams 1 ps \<and> list_all nonempty_page ps \<and>
      list_all next_truthy ps \<and> int (length ps) < maxPages \<and>
      fetchFunction (page_params initialParams (int (length ps) + 1)) = Inr response \<and>
      \<not> recognized response"
  then have p: "serves_pages fetchFunction initialParams 1 ps" "list_all nonempty_page ps"
    "list_all next_truthy ps" "int (length ps) < maxPages"
    "fetchFunction (page_params initialParams (int (length ps) + 1)) = Inr response"
    and u: "\<not> recognized response"
    by simp_all
  from read_page_unrecognized [OF u, of "concat (map fst ps)"]
  show "fetchAllPaginated fetchFunction initialParams maxPages =
        (Inr (concat (map fst ps) @ single_item response),
         map (page_params initialParams) [1..int (length ps) + 1])"
  proof (elim disjE exE conjE)
    fix e assume "read_page response = Inl e" "single_item response = []"
    with pages_then_bad_response [OF p] show ?thesis by simp
  next
    fix items assume "read_page response = Inr (items, False)"
      "js_concat (concat (map fst ps)) items = concat (map fst ps) @ single_item response"
    with pages_then_final [OF p] show ?thesis by simp
  qed
qed

theorem returns_array_witness:
  "(\<exists>allItems. fst (fetchAllPaginated (mockFetchFunction [JNull]) [] 100) = Inr allItems)
   \<and> fetchAllPaginated (failingFetchFunction (newError ''timeout'')) [] 100
       = (Inr [], [page_params [] 1])
   \<and> fetchAllPaginated (mockFetchFunction (envelopes two_pages @ [odd_response])) [] 100
       = (Inr [item 1, item 2, item 3, item 4, item 5, item 6, item 9],
          [page_params [] 1, page_params [] 2, page_params [] 3])"
proof -
  have a: "\<forall>params e. mockFetchFunction [JNull] params = Inl e \<longrightarrow> \<not> nullish e"
    by (auto simp: mockFetchFunction_def split: sum.splits jsval.splits dest: getProp_throws)
  have b: "(1::int) \<le> 100 \<and>
      failingFetchFunction (newError ''timeout'') (page_params [] 1) = Inl (newError ''timeout'') \<and>
      \<not> nullish (newError ''timeout'')"
    by (simp add: failingFetchFunction_def newError_def)
  have c: "serves_pages (mockFetchFunction (envelopes two_pages @ [odd_response])) [] 1 two_pages \<and>
      list_all nonempty_page two_pages \<and> list_all next_truthy two_pages \<and>
      int (length two_pages) < 100 \<and>
      mockFetchFunction (envelopes two_pages @ [odd_response])
        (page_params [] (int (length two_pages) + 1)) = Inr odd_response \<and>
      \<not> recognized odd_response"
    by code_simp
  have d: "concat (map fst two_pages) @ single_item odd_response =
      [item 1, item 2, item 3, item 4, item 5, item 6, item 9]"
    by code_simp
  have e: "map (page_params []) [1..int (length two_pages) + 1] =
      [page_params [] 1, page_params [] 2, page_params [] 3]"
    by (simp add: two_pages_def upto_rec1)
  from returns_array [of "mockFetchFunction [JNull]" "[]" 100] a
  have 1: "\<exists>allItems. fst (fetchAllPaginated (mockFetchFunction [JNull]) [] 100) = Inr allItems"
    by blast
  from returns_array [of "failingFetchFunction (newError ''timeout'')" "[]" 100 "newError ''timeout''"] b
  have 2: "fetchAllPaginated (failingFetchFunction (newError ''timeout'')) [] 100
       = (Inr [], [page_params [] 1])"
    by blast
  from returns_array [of "mockFetchFunction (envelopes two_pages @ [odd_response])" "[]" 100 _
      two_pages odd_response] c
  have 3: "fetchAllPaginated (mockFetchFunction (envelopes two_pages @ [odd_response])) [] 100
       = (Inr (concat (map fst two_pages) @ single_item odd_response),
          map (page_params []) [1..int (length two_pages) + 1])"
    by blast
  from 1 2 3 show ?thesis unfolding d e by blast
qed

section \<open>Claims on the version-guarded updates\<close>




text \<open>
  C10: in \<open>updateIssue\<close>, \<open>updateEpic\<close> and \<open>updateWikiPage\<close>, for a field-change object
  that has a \<open>version\<close> key of its own. (1) When the client is obtained and the read of
  the target resource succeeds with version \<open>v\<close>, the invocation sends the GET of the
  resource and then the PATCH to the same URL, and the payload of the PATCH is the
  caller's object with the value under \<open>version\<close> replaced by \<open>v\<close>: the \<open>version\<close> of
  the payload is \<open>v\<close> whatever the caller supplied, and the keys and every other field
  are the caller's. (2) In every invocation, whatever the server does, a PATCH is the
  second and last request, its payload is the caller's object with the version of the
  resource that the GET before it returned, and nothing of the caller's \<open>version\<close> is
  on the wire.
\<close>

theorem caller_version_overridden:
  "(u \<in> {UpdateIssue itemId updateData, UpdateEpic itemId updateData,
          UpdateWikiPage itemId updateData} \<and>
    map_of updateData ''version'' = Some callerVersion \<and>
    authenticates t \<and> serves_version t (target_url k u) v \<longrightarrow>
      (\<exists>res w' response d out.
          run_update t k u (w, []) =
            (res, (w', [Get (target_url k u) (Inr response),
                        Patch (target_url k u)
                          (JObj (AList.update ''version'' v updateData)) out])) \<and>
          getProp response ''data'' = Inr d \<and> getProp d ''version'' = Inr v \<and>
          getProp (JObj (AList.update ''version'' v updateData)) ''version'' = Inr v \<and>
          map fst (AList.update ''version'' v updateData) = map fst updateData \<and>
          (\<forall>key. key \<noteq> ''version'' \<longrightarrow>
             map_of (AList.update ''version'' v updateData) key = map_of updateData key)))
   \<and> (u \<in> {UpdateIssue itemId updateData, UpdateEpic itemId updateData,
          UpdateWikiPage itemId updateData} \<and>
    map_of updateData ''version'' = Some callerVersion \<and>
    run_update t k u (w, []) = (res, (w', log)) \<and> Patch url body out \<in> set log \<longrightarrow>
      (\<exists>response d version.
          log = [Get url (Inr response), Patch url body out] \<and> url = target_url k u \<and>
          getProp response ''data'' = Inr d \<and> getProp d ''version'' = Inr version \<and>
          body = JObj (AList.update ''version'' version updateData) \<and>
          getProp body ''version'' = Inr version \<and>
          map fst (AList.update ''version'' version updateData) = map fst updateData \<and>
          (\<forall>key. key \<noteq> ''version'' \<longrightarrow>
             map_of (AList.update ''version'' version updateData) key = map_of updateData key)))"
proof (intro conjI impI)
  assume a: "u \<in> {UpdateIssue itemId updateData, UpdateEpic itemId updateData,
          UpdateWikiPage itemId updateData} \<and>
    map_of updateData ''version'' = Some callerVersion \<and>
    authenticates t \<and> serves_version t (target_url k u) v"
  then have key: "''version'' \<in> fst ` set updateData"
    by (metis domI dom_map_of_conv_image_fst)
  have "\<exists>res w' response d out.
          run_update t k u (w, []) =
            (res, (w', [Get (target_url k u) (Inr response),
                        Patch (target_url k u)
                          (JObj (AList.update ''version'' v updateData)) out])) \<and>
          getProp response ''data'' = Inr d \<and> getProp d ''version'' = Inr v"
    using a updateIssue_sends [of t k itemId v updateData w]
      updateEpic_sends [of t k itemId v updateData w]
      updateWikiPage_sends [of t k itemId v updateData w]
    by auto
  moreover have "getProp (JObj (AList.update ''version'' v updateData)) ''version'' = Inr v"
    by (simp add: update_conv')
  moreover from key have "map fst (AList.update ''version'' v updateData) = map fst updateData"
    by (simp add: update_keys)
  moreover have "\<forall>key. key \<noteq> ''version'' \<longrightarrow>
        map_of (AList.update ''version'' v updateData) key = map_of updateData key"
    by (simp add: update_conv')
  ultimately show "\<exists>res w' response d out.
          run_update t k u (w, []) =
            (res, (w', [Get (target_url k u) (Inr response),
                        Patch (target_url k u)
                          (JObj (AList.update ''version'' v updateData)) out])) \<and>
          getProp response ''data'' = Inr d \<and> getProp d ''version'' = Inr v \<and>
          getProp (JObj (AList.update ''version'' v updateData)) ''version'' = Inr v \<and>
          map fst (AList.update ''version'' v updateData) = map fst updateData \<and>
          (\<forall>key. key \<noteq> ''version'' \<longrightarrow>
             map_of (AList.update ''version'' v updateData) key = map_of updateData key)"
    by blast
next
  assume b: "u \<in> {UpdateIssue itemId updateData, UpdateEpic itemId updateData,
          UpdateWikiPage itemId updateData} \<and>
    map_of updateData ''version'' = Some callerVersion \<and>
    run_update t k u (w, []) = (res, (w', log)) \<and> Patch url body out \<in> set log"
  then have key: "''version'' \<in> fst ` set updateData"
    by (metis domI dom_map_of_conv_image_fst)
  have "\<exists>response d version. log = [Get url (Inr response), Patch url body out] \<and>
     url = target_url k u \<and>
     getProp response ''data'' = Inr d \<and> getProp d ''version'' = Inr version \<and>
     body = JObj (AList.update ''version'' version updateData)"
    using b
      updateIssue_log [of t k itemId updateData w res w' log url body out]
      updateEpic_log [of t k itemId updateData w res w' log url body out]
      updateWikiPage_log [of t k itemId updateData w res w' log url body out]
    by auto
  then obtain response d version where *: "log = [Get url (Inr response), Patch url body out]"
     "url = target_url k u"
     "getProp response ''data'' = Inr d" "getProp d ''version'' = Inr version"
     "body = JObj (AList.update ''version'' version updateData)"
    by blast
  from *(5) have "getProp body ''version'' = Inr version"
    by (simp add: update_conv')
  moreover from key have "map fst (AList.update ''version'' version updateData) = map fst updateData"
    by (simp add: update_keys)
  moreover have "\<forall>key. key \<noteq> ''version'' \<longrightarrow>
        map_of (AList.update ''version'' version updateData) key = map_of updateData key"
    by (simp add: update_conv')
  ultimately show "\<exists>response d version.
          log = [Get url (Inr response), Patch url body out] \<and> url = target_url k u \<and>
          getProp response ''data'' = Inr d \<and> getProp d ''version'' = Inr version \<and>
          body = JObj (AList.update ''version'' version updateData) \<and>
          getProp body ''version'' = Inr version \<and>
          map fst (AList.update ''version'' version updateData) = map fst updateData \<and>
          (\<forall>key. key \<noteq> ''version'' \<longrightarrow>
             map_of (AList.update ''version'' version updateData) key = map_of updateData key)"
    using * by blast
qed

text \<open>
  An epic at version 5; the caller sends a stale \<open>version: 3\<close> with its change. The
  payload on the wire carries 5 in the place of the 3, before the subject.
\<close>

theorem caller_version_overridden_witness:
  "UpdateEpic (JNum 7) [(''version'', JNum 3), (''subject'', JStr ''Q3'')]
     \<in> {UpdateIssue (JNum 7) [(''version'', JNum 3), (''subject'', JStr ''Q3'')],
         UpdateEpic (JNum 7) [(''version'', JNum 3), (''subject'', JStr ''Q3'')],
         UpdateWikiPage (JNum 7) [(''version'', JNum 3), (''subject'', JStr ''Q3'')]}
   \<and> map_of [(''version'', JNum 3), (''subject'', JStr ''Q3'')] ''version'' = Some (JNum 3)
   \<and> authenticates (stub_transport issue_v5 :: unit transport)
   \<and> serves_version (stub_transport issue_v5 :: unit transport)
        (target_url test_constants
          (UpdateEpic (JNum 7) [(''version'', JNum 3), (''subject'', JStr ''Q3'')])) (JNum 5)
   \<and> (\<exists>res w' response d out.
        run_update (stub_transport issue_v5) test_constants
            (UpdateEpic (JNum 7) [(''version'', JNum 3), (''subject'', JStr ''Q3'')]) ((), []) =
          (res, (w', [Get ''/epics/7'' (Inr response),
                      Patch ''/epics/7''
                        (JObj [(''version'', JNum 5), (''subject'', JStr ''Q3'')]) out])) \<and>
        getProp response ''data'' = Inr d \<and> getProp d ''version'' = Inr (JNum 5))
   \<and> run_update (stub_transport issue_v5) test_constants
        (UpdateEpic (JNum 7) [(''version'', JNum 3), (''subject'', JStr ''Q3'')]) ((), [])
      = (Inr (JObj [(''version'', JNum 5), (''subject'', JStr ''Q3'')]),
         ((), [Get ''/epics/7'' (Inr (JObj [(''data'', issue_v5)])),
               Patch ''/epics/7'' (JObj [(''version'', JNum 5), (''subject'', JStr ''Q3'')])
                 (Inr (JObj [(''data'',
                    JObj [(''version'', JNum 5), (''subject'', JStr ''Q3'')])]))]))
   \<and> getProp (JObj [(''version'', JNum 5), (''subject'', JStr ''Q3'')]) ''version'' = Inr (JNum 5)"
proof -
  let ?t = "stub_transport issue_v5 :: unit transport"
  let ?data = "[(''version'', JNum 3), (''subject'', JStr ''Q3'')]"
  let ?body = "JObj [(''version'', JNum 5), (''subject'', JStr ''Q3'')]"
  let ?log = "[Get ''/epics/7'' (Inr (JObj [(''data'', issue_v5)])),
               Patch ''/epics/7'' ?body (Inr (JObj [(''data'', ?body)]))]"
  have url: "target_url test_constants (UpdateEpic (JNum 7) ?data) = ''/epics/7''"
    by code_simp
  have h1: "UpdateEpic (JNum 7) ?data
     \<in> {UpdateIssue (JNum 7) ?data, UpdateEpic (JNum 7) ?data, UpdateWikiPage (JNum 7) ?data}"
    by simp
  have h2: "map_of ?data ''version'' = Some (JNum 3)" by simp
  have h3: "authenticates ?t"
    by (simp add: authenticates_def stub_transport_def)
  have h4: "serves_version ?t (target_url test_constants (UpdateEpic (JNum 7) ?data)) (JNum 5)"
    by (simp add: serves_version_def stub_transport_def issue_v5_def)
  have a: "UpdateEpic (JNum 7) ?data
     \<in> {UpdateIssue (JNum 7) ?data, UpdateEpic (JNum 7) ?data, UpdateWikiPage (JNum 7) ?data} \<and>
    map_of ?data ''version'' = Some (JNum 3) \<and> authenticates ?t \<and>
    serves_version ?t (target_url test_constants (UpdateEpic (JNum 7) ?data)) (JNum 5)"
    using h1 h2 h3 h4 by (intro conjI)
  have upd: "AList.update ''version'' (JNum 5) ?data = [(''version'', JNum 5), (''subject'', JStr ''Q3'')]"
    by simp
  have h5: "run_update ?t test_constants (UpdateEpic (JNum 7) ?data) ((), [])
     = (Inr ?body, ((), ?log))"
    by code_simp
  have b: "UpdateEpic (JNum 7) ?data
     \<in> {UpdateIssue (JNum 7) ?data, UpdateEpic (JNum 7) ?data, UpdateWikiPage (JNum 7) ?data} \<and>
    map_of ?data ''version'' = Some (JNum 3) \<and>
    run_update ?t test_constants (UpdateEpic (JNum 7) ?data) ((), []) = (Inr ?body, ((), ?log)) \<and>
    Patch ''/epics/7'' ?body (Inr (JObj [(''data'', ?body)])) \<in> set ?log"
    using h1 h2 h5 by simp
  from caller_version_overridden
    [where u = "UpdateEpic (JNum 7) ?data" and itemId = "JNum 7" and updateData = ?data
       and callerVersion = "JNum 3" and t = ?t and k = test_constants and v = "JNum 5"
       and w = "()",
     THEN conjunct1, THEN mp, OF a, unfolded url upd]
  have 1: "\<exists>res w' response d out.
        run_update ?t test_constants (UpdateEpic (JNum 7) ?data) ((), []) =
          (res, (w', [Get ''/epics/7'' (Inr response), Patch ''/epics/7'' ?body out])) \<and>
        getProp response ''data'' = Inr d \<and> getProp d ''version'' = Inr (JNum 5)"
    by (elim exE conjE, intro exI conjI)
  from caller_version_overridden
    [where u = "UpdateEpic (JNum 7) ?data" and itemId = "JNum 7" and updateData = ?data
       and callerVersion = "JNum 3" and t = ?t and k = test_constants
       and w = "()" and res = "Inr ?body" and w' = "()" and log = ?log
       and url = "''/epics/7''" and body = ?body and out = "Inr (JObj [(''data'', ?body)])",
     THEN conjunct2, THEN mp, OF b]
  have 2: "getProp ?body ''version'' = Inr (JNum 5)"
    by auto
  from h1 h2 h3 h4 1 h5 2 show ?thesis by (intro conjI)
qed

text \<open>
  C3: in every version-guarded update, a fresh read whose \<open>version\<close> is absent or not a
  number makes the protocol put the default version 1 into the payload. The default is
  in \<open>getItemVersion\<close>, through which only \<open>addComment\<close> reads; \<open>updateIssue\<close> copies
  \<open>currentIssue.version\<close> as it is. The two on the same issue, whose representation has
  no \<open>version\<close>: the payload of \<open>updateIssue\<close> carries \<open>version: undefined\<close>, that of
  \<open>addComment\<close> carries \<open>version: 1\<close>.
\<close>

theorem updateIssue_without_default:
  "getProp issue_unversioned ''version'' = Inr JUndefined
   \<and> run_update (stub_transport issue_unversioned) test_constants
        (UpdateIssue (JNum 42) [(''status'', JNum 2)]) ((), [])
      = (Inr (JObj [(''status'', JNum 2), (''version'', JUndefined)]),
         ((), [Get ''/issues/42'' (Inr (JObj [(''data'', issue_unversioned)])),
               Patch ''/issues/42'' (JObj [(''status'', JNum 2), (''version'', JUndefined)])
                 (Inr (JObj [(''data'', JObj [(''status'', JNum 2), (''version'', JUndefined)])]))]))
   \<and> getProp (JObj [(''status'', JNum 2), (''version'', JUndefined)]) ''version'' \<noteq> Inr (JNum 1)
   \<and> run_update (stub_transport issue_unversioned) test_constants
        (AddComment ''issue'' (JNum 42) (JObj [(''comment'', JStr ''Reproduced.'')])) ((), [])
      = (Inr (JObj [(''comment'', JStr ''Reproduced.''), (''version'', JNum 1)]),
         ((), [Get ''/issues/42'' (Inr (JObj [(''data'', issue_unversioned)])),
               Patch ''/issues/42'' (JObj [(''comment'', JStr ''Reproduced.''), (''version'', JNum 1)])
                 (Inr (JObj [(''data'',
                    JObj [(''comment'', JStr ''Reproduced.''), (''version'', JNum 1)])]))]))"
  by code_simp

section \<open>Claims on the attachment pipeline\<close>

text \<open>
  C4, as stated: every upload whose file data is empty or not a string, whose file name is
  empty or not a string, or whose data cannot be decoded fails with a validation error,
  found before any network call. \<open>uploadAttachment\<close> awaits \<open>createAuthenticatedClient\<close>
  and \<open>getAuthToken\<close> before it looks at its arguments: when the client cannot be
  obtained, an upload with empty file data fails with the authentication error, and the
  file data is never examined.
\<close>

theorem validation_first_counterexample:
  "\<not> truthy (JStr [])
   \<and> uploadAttachment (unauthenticated_transport (newError ''Authentication failed''))
        test_constants stub_runtime ''issue'' (JNum 42) (JStr []) (JStr ''a.png'') JUndefined
        JUndefined ([], [])
      = (Inl (newError ''Failed to upload attachment to Taiga: Authentication failed''), ([], []))
   \<and> fst (uploadAttachment (unauthenticated_transport (newError ''Authentication failed''))
        test_constants stub_runtime ''issue'' (JNum 42) (JStr []) (JStr ''a.png'') JUndefined
        JUndefined ([], []))
      \<noteq> Inl (newError (''Failed to upload attachment to Taiga: '' @
           ''Invalid file data: fileData must be a base64 encoded string''))"
  by code_simp

text \<open>
  C4, amended: once the client and the token are obtained (the two calls the function
  awaits first), an upload whose file data is empty or not a string, or whose file name is
  empty or not a string, fails with the validation error of that argument, and no request
  at all is sent through the client: the log stays empty, so nothing is tried again.
\<close>

theorem validation_before_requests:
  assumes "createAuthenticatedClient t w = (Inr (), w1)"
    and "getAuthToken t w1 = (Inr token, w2)"
  shows
   "(\<not> truthy fileData \<or> \<not> isString fileData \<longrightarrow>
       uploadAttachment t k rt itemType itemId fileData fileName mimeType description (w, []) =
         (Inl (newError (''Failed to upload attachment to Taiga: '' @
            ''Invalid file data: fileData must be a base64 encoded string'')), (w2, [])))
    \<and> (truthy fileData \<and> isString fileData \<and> (\<not> truthy fileName \<or> \<not> isString fileName) \<longrightarrow>
       uploadAttachment t k rt itemType itemId fileData fileName mimeType description (w, []) =
         (Inl (newError (''Failed to upload attachment to Taiga: '' @
            ''Invalid file name: fileName is required'')), (w2, [])))"
  using upload_invalid_file_data [OF assms, of fileData k rt itemType itemId fileName mimeType description "[]"]
    upload_invalid_file_name [OF assms, of fileData fileName k rt itemType itemId mimeType description "[]"]
  by blast

text \<open>Empty file data, and a number as the file name.\<close>

theorem validation_before_requests_witness:
  "uploadAttachment (stub_transport issue_v5) test_constants stub_runtime ''issue'' (JNum 42)
      (JStr []) (JStr ''a.png'') JUndefined JUndefined ([], [])
     = (Inl (newError (''Failed to upload attachment to Taiga: '' @
          ''Invalid file data: fileData must be a base64 encoded string'')), ([], []))
   \<and> uploadAttachment (stub_transport issue_v5) test_constants stub_runtime ''issue'' (JNum 42)
      (JStr ''iVBO'') (JNum 7) JUndefined JUndefined ([], [])
     = (Inl (newError (''Failed to upload attachment to Taiga: '' @
          ''Invalid file name: fileName is required'')), ([], []))"
proof -
  let ?t = "stub_transport issue_v5 :: string list transport"
  have a: "createAuthenticatedClient ?t [] = (Inr (), [])"
    by (simp add: stub_transport_def)
  have b: "getAuthToken ?t [] = (Inr (JStr ''token''), [])"
    by (simp add: stub_transport_def)
  have 1: "\<not> truthy (JStr []) \<or> \<not> isString (JStr [])" by simp
  have 2: "truthy (JStr ''iVBO'') \<and> isString (JStr ''iVBO'') \<and>
      (\<not> truthy (JNum 7) \<or> \<not> isString (JNum 7))" by simp
  note v1 = validation_before_requests [OF a b, of "JStr []" test_constants stub_runtime
      "''issue''" "JNum 42" "JStr ''a.png''" JUndefined JUndefined,
      THEN conjunct1, THEN mp, OF 1]
  note v2 = validation_before_requests [OF a b, of "JStr ''iVBO''" test_constants stub_runtime
      "''issue''" "JNum 42" "JNum 7" JUndefined JUndefined,
      THEN conjunct2, THEN mp, OF 2]
  from v1 v2 show ?thesis by (rule conjI)
qed



text \<open>
  C8: for a relative file path (a non-empty string that is not absolute) the candidates
  are probed in the fixed order working directory, home directory, home/Desktop,
  home/Downloads, and the first that exists is selected: the file-system accesses of
  \<open>uploadAttachmentFromPath\<close> begin with the failed probes of the candidates before the
  first existing one, in that order, then its successful probe, then the read of that
  very path; when none exists, all four are probed and nothing is read. In particular, a
  file that exists under home/Desktop and under neither the working directory nor the
  home directory is found, and the Desktop path is the one read.
\<close>

theorem relative_path_probing:
  assumes "filePath \<noteq> []" and "\<not> isAbsolute rt filePath"
  shows
   "possiblePaths rt filePath =
      [resolve rt [cwd rt, filePath], resolve rt [homeDir rt, filePath],
       resolve rt [homeDir rt, ''Desktop'', filePath],
       resolve rt [homeDir rt, ''Downloads'', filePath]]
    \<and> (\<exists>rest. snd (snd (uploadAttachmentFromPath t k rt itemType itemId (JStr filePath)
                  description (w, []))) =
          map (\<lambda>p. Exists p False)
            (takeWhile (\<lambda>p. \<not> existsSync rt p w) (possiblePaths rt filePath)) @
          (case find (\<lambda>p. existsSync rt p w) (possiblePaths rt filePath) of
             None \<Rightarrow> []
           | Some p \<Rightarrow> [Exists p True, ReadFile p] @ rest))
    \<and> (\<not> existsSync rt (resolve rt [cwd rt, filePath]) w \<and>
        \<not> existsSync rt (resolve rt [homeDir rt, filePath]) w \<and>
        existsSync rt (resolve rt [homeDir rt, ''Desktop'', filePath]) w \<longrightarrow>
        (\<exists>rest. snd (snd (uploadAttachmentFromPath t k rt itemType itemId (JStr filePath)
                  description (w, []))) =
          [Exists (resolve rt [cwd rt, filePath]) False,
           Exists (resolve rt [homeDir rt, filePath]) False,
           Exists (resolve rt [homeDir rt, ''Desktop'', filePath]) True,
           ReadFile (resolve rt [homeDir rt, ''Desktop'', filePath])] @ rest))"
proof (intro conjI impI)
  show "possiblePaths rt filePath =
      [resolve rt [cwd rt, filePath], resolve rt [homeDir rt, filePath],
       resolve rt [homeDir rt, ''Desktop'', filePath],
       resolve rt [homeDir rt, ''Downloads'', filePath]]"
    by (simp add: possiblePaths_def)
  show "\<exists>rest. snd (snd (uploadAttachmentFromPath t k rt itemType itemId (JStr filePath)
                  description (w, []))) =
          map (\<lambda>p. Exists p False)
            (takeWhile (\<lambda>p. \<not> existsSync rt p w) (possiblePaths rt filePath)) @
          (case find (\<lambda>p. existsSync rt p w) (possiblePaths rt filePath) of
             None \<Rightarrow> []
           | Some p \<Rightarrow> [Exists p True, ReadFile p] @ rest)"
    using assms by (rule uploadAttachmentFromPath_log)
  assume "\<not> existsSync rt (resolve rt [cwd rt, filePath]) w \<and>
        \<not> existsSync rt (resolve rt [homeDir rt, filePath]) w \<and>
        existsSync rt (resolve rt [homeDir rt, ''Desktop'', filePath]) w"
  with uploadAttachmentFromPath_log [OF assms, of t k itemType itemId description w]
  show "\<exists>rest. snd (snd (uploadAttachmentFromPath t k rt itemType itemId (JStr filePath)
                  description (w, []))) =
          [Exists (resolve rt [cwd rt, filePath]) False,
           Exists (resolve rt [homeDir rt, filePath]) False,
           Exists (resolve rt [homeDir rt, ''Desktop'', filePath]) True,
           ReadFile (resolve rt [homeDir rt, ''Desktop'', filePath])] @ rest"
    by (simp add: possiblePaths_def)
qed

text \<open>The file \<open>shot.png\<close> exists on the Desktop only.\<close>

theorem relative_path_probing_witness:
  "''shot.png'' \<noteq> [] \<and> \<not> isAbsolute stub_runtime ''shot.png''
   \<and> \<not> existsSync stub_runtime (resolve stub_runtime [cwd stub_runtime, ''shot.png''])
         [''/home/ana/Desktop/shot.png'']
   \<and> \<not> existsSync stub_runtime (resolve stub_runtime [homeDir stub_runtime, ''shot.png''])
         [''/home/ana/Desktop/shot.png'']
   \<and> existsSync stub_runtime (resolve stub_runtime [homeDir stub_runtime, ''Desktop'', ''shot.png''])
         [''/home/ana/Desktop/shot.png'']
   \<and> (\<exists>rest. snd (snd (uploadAttachmentFromPath (stub_transport issue_v5) test_constants
          stub_runtime ''issue'' (JNum 42) (JStr ''shot.png'') JUndefined
          ([''/home/ana/Desktop/shot.png''], []))) =
        [Exists (resolve stub_runtime [cwd stub_runtime, ''shot.png'']) False,
         Exists (resolve stub_runtime [homeDir stub_runtime, ''shot.png'']) False,
         Exists (resolve stub_runtime [homeDir stub_runtime, ''Desktop'', ''shot.png'']) True,
         ReadFile (resolve stub_runtime [homeDir stub_runtime, ''Desktop'', ''shot.png''])] @ rest)
   \<and> resolve stub_runtime [homeDir stub_runtime, ''Desktop'', ''shot.png'']
       = ''/home/ana/Desktop/shot.png''"
proof -
  have h1: "''shot.png'' \<noteq> []" by simp
  have h2: "\<not> isAbsolute stub_runtime ''shot.png''" by code_simp
  have h3: "\<not> existsSync stub_runtime (resolve stub_runtime [cwd stub_runtime, ''shot.png''])
         [''/home/ana/Desktop/shot.png''] \<and>
     \<not> existsSync stub_runtime (resolve stub_runtime [homeDir stub_runtime, ''shot.png''])
         [''/home/ana/Desktop/shot.png''] \<and>
     existsSync stub_runtime (resolve stub_runtime [homeDir stub_runtime, ''Desktop'', ''shot.png''])
         [''/home/ana/Desktop/shot.png'']"
    by code_simp
  have h4: "resolve stub_runtime [homeDir stub_runtime, ''Desktop'', ''shot.png'']
       = ''/home/ana/Desktop/shot.png''"
    by code_simp
  note th = relative_path_probing [OF h1 h2, of "stub_transport issue_v5" test_constants
      "''issue''" "JNum 42" JUndefined "[''/home/ana/Desktop/shot.png'']",
      THEN conjunct2, THEN conjunct2, THEN mp, OF h3]
  from h1 h2 h3 th h4 show ?thesis by (intro conjI) simp_all
qed

end
